theory Spec2Isabelle
  imports Main "HOL-Library.Word"
begin

unbundle bit_operations_syntax

section \<open>Machine types and the byte image of an object\<close>

text \<open>
  The builders of \<^verbatim>\<open>server/OffloadUtils.cpp\<close> lay a request out as a C struct and hand
  the transport the struct's address and \<^verbatim>\<open>sizeof\<close>. The model keeps each struct as a
  record and gives its byte image explicitly. Every member used here is aligned to its own
  size at the offset the preceding members leave (all struct sizes are multiples of 4), so
  the image is the concatenation of the members' images with no compiler padding. Scalars
  are stored least significant byte first, as on every Android ABI.
\<close>

type_synonym u8 = "8 word"
type_synonym u16 = "16 word"
type_synonym u32 = "32 word"
type_synonym s32 = "32 word"

definition le16 :: "u16 \<Rightarrow> u8 list" where
  "le16 w = [ucast w, ucast (drop_bit 8 w)]"

definition le32 :: "u32 \<Rightarrow> u8 list" where
  "le32 w = [ucast w, ucast (drop_bit 8 w), ucast (drop_bit 16 w), ucast (drop_bit 24 w)]"

text \<open>Reading a scalar back from a byte image (the members of \<^verbatim>\<open>resp\<close>).\<close>

definition rd16 :: "u8 list \<Rightarrow> nat \<Rightarrow> u16" where
  "rd16 b off = ucast (b ! off) OR push_bit 8 (ucast (b ! (off + 1)))"

definition rd32 :: "u8 list \<Rightarrow> nat \<Rightarrow> u32" where
  "rd32 b off = ucast (b ! off) OR push_bit 8 (ucast (b ! (off + 1)))
     OR push_bit 16 (ucast (b ! (off + 2))) OR push_bit 24 (ucast (b ! (off + 3)))"

text \<open>A C \<^verbatim>\<open>char\<close> is kept as a \<^typ>\<open>char\<close>; \<^verbatim>\<open>'\\0'\<close> is the character with code 0.\<close>

definition NUL :: char where
  "NUL = CHR 0x00"

definition byte_of_char :: "char \<Rightarrow> u8" where
  "byte_of_char c = of_nat (of_char c)"

definition bytes_of_chars :: "string \<Rightarrow> u8 list" where
  "bytes_of_chars s = map byte_of_char s"

text \<open>\<^verbatim>\<open>sizeof\<close> of a string literal: its characters and the terminating NUL.\<close>

definition sizeof_lit :: "string \<Rightarrow> nat" where
  "sizeof_lit s = length s + 1"

text \<open>\<^verbatim>\<open>char a[n] = "lit"\<close>: the literal's characters, the rest of the array zeroed.\<close>

definition char_array_init :: "nat \<Rightarrow> string \<Rightarrow> string" where
  "char_array_init n s = s @ replicate (n - length s) NUL"

text \<open>
  \<^verbatim>\<open>strncpy(dst, src, n)\<close>: the characters of \<^verbatim>\<open>src\<close> up to its first NUL, at most
  \<^verbatim>\<open>n\<close> of them, are stored; when that is fewer than \<^verbatim>\<open>n\<close> the remainder of the first
  \<^verbatim>\<open>n\<close> characters of \<^verbatim>\<open>dst\<close> is filled with NUL. Characters of \<^verbatim>\<open>dst\<close> past
  \<^verbatim>\<open>n\<close> stay.
\<close>

definition strncpy :: "string \<Rightarrow> string \<Rightarrow> nat \<Rightarrow> string" where
  "strncpy dst src n =
     (let s = takeWhile (\<lambda>c. c \<noteq> NUL) src
      in (if n \<le> length s then take n s else s @ replicate (n - length s) NUL) @ drop n dst)"

text \<open>\<^verbatim>\<open>strlen\<close>: the number of characters before the first NUL.\<close>

definition strlen :: "string \<Rightarrow> nat" where
  "strlen s = length (takeWhile (\<lambda>c. c \<noteq> NUL) s)"

section \<open>Kernel ABI: \<^verbatim>\<open>linux/netlink.h\<close>, \<^verbatim>\<open>linux/rtnetlink.h\<close>, \<^verbatim>\<open>linux/pkt_sched.h\<close>, \<^verbatim>\<open>linux/pkt_cls.h\<close>\<close>

text \<open>
  The constants, macros and struct declarations below are those of the Linux UAPI headers
  the source includes.
\<close>

record nlmsghdr =
  nlmsg_len :: u32
  nlmsg_type :: u16
  nlmsg_flags :: u16
  nlmsg_seq :: u32
  nlmsg_pid :: u32

record tcmsg =
  tcm_family :: u8
  tcm__pad1 :: u8
  tcm__pad2 :: u16
  tcm_ifindex :: s32
  tcm_handle :: u32
  tcm_parent :: u32
  tcm_info :: u32

record nlattr =
  nla_len :: u16
  nla_type :: u16

definition sizeof_nlmsghdr :: nat where "sizeof_nlmsghdr = 16"
definition sizeof_tcmsg :: nat where "sizeof_tcmsg = 20"
definition sizeof_nlattr :: nat where "sizeof_nlattr = 4"
definition sizeof_nlmsgerr :: nat where "sizeof_nlmsgerr = 4 + sizeof_nlmsghdr"
definition sizeof_u32 :: nat where "sizeof_u32 = 4"

definition offsetof_nlmsg_type :: nat where "offsetof_nlmsg_type = 4"
definition offsetof_nlmsg_flags :: nat where "offsetof_nlmsg_flags = 6"

definition bytes_of_nlmsghdr :: "nlmsghdr \<Rightarrow> u8 list" where
  "bytes_of_nlmsghdr h =
     le32 (nlmsg_len h) @ le16 (nlmsg_type h) @ le16 (nlmsg_flags h)
       @ le32 (nlmsg_seq h) @ le32 (nlmsg_pid h)"

definition bytes_of_tcmsg :: "tcmsg \<Rightarrow> u8 list" where
  "bytes_of_tcmsg t =
     [tcm_family t, tcm__pad1 t] @ le16 (tcm__pad2 t) @ le32 (tcm_ifindex t)
       @ le32 (tcm_handle t) @ le32 (tcm_parent t) @ le32 (tcm_info t)"

definition bytes_of_nlattr :: "nlattr \<Rightarrow> u8 list" where
  "bytes_of_nlattr a = le16 (nla_len a) @ le16 (nla_type a)"

text \<open>
  \<^verbatim>\<open>#define NLMSG_ALIGN(len) ( ((len)+NLMSG_ALIGNTO-1) & ~(NLMSG_ALIGNTO-1) )\<close> with
  \<^verbatim>\<open>NLMSG_ALIGNTO\<close> 4: the mask clears the two low bits.
\<close>

definition NLMSG_ALIGNTO :: nat where "NLMSG_ALIGNTO = 4"

definition NLMSG_ALIGN :: "nat \<Rightarrow> nat" where
  "NLMSG_ALIGN len = (len + NLMSG_ALIGNTO - 1) - (len + NLMSG_ALIGNTO - 1) mod NLMSG_ALIGNTO"

definition NLMSG_HDRLEN :: nat where "NLMSG_HDRLEN = NLMSG_ALIGN sizeof_nlmsghdr"
definition NLMSG_LENGTH :: "nat \<Rightarrow> nat" where "NLMSG_LENGTH len = len + NLMSG_HDRLEN"
definition NLMSG_SPACE :: "nat \<Rightarrow> nat" where "NLMSG_SPACE len = NLMSG_ALIGN (NLMSG_LENGTH len)"

definition NLA_ALIGNTO :: nat where "NLA_ALIGNTO = 4"

definition NLA_ALIGN :: "nat \<Rightarrow> nat" where
  "NLA_ALIGN len = (len + NLA_ALIGNTO - 1) - (len + NLA_ALIGNTO - 1) mod NLA_ALIGNTO"

definition NLA_HDRLEN :: nat where "NLA_HDRLEN = NLA_ALIGN sizeof_nlattr"

definition NLMSG_ERROR :: u16 where "NLMSG_ERROR = 0x2"

definition NLM_F_REQUEST :: u16 where "NLM_F_REQUEST = 0x01"
definition NLM_F_ACK :: u16 where "NLM_F_ACK = 0x04"
definition NLM_F_REPLACE :: u16 where "NLM_F_REPLACE = 0x100"
definition NLM_F_EXCL :: u16 where "NLM_F_EXCL = 0x200"
definition NLM_F_CREATE :: u16 where "NLM_F_CREATE = 0x400"

definition RTM_NEWQDISC :: u16 where "RTM_NEWQDISC = 36"
definition RTM_DELQDISC :: u16 where "RTM_DELQDISC = 37"
definition RTM_NEWTFILTER :: u16 where "RTM_NEWTFILTER = 44"
definition RTM_DELTFILTER :: u16 where "RTM_DELTFILTER = 45"

definition AF_UNSPEC :: u8 where "AF_UNSPEC = 0"

definition TC_H_MAJ_MASK :: u32 where "TC_H_MAJ_MASK = 0xFFFF0000"
definition TC_H_MIN_MASK :: u32 where "TC_H_MIN_MASK = 0x0000FFFF"

definition TC_H_MAKE :: "u32 \<Rightarrow> u32 \<Rightarrow> u32" where
  "TC_H_MAKE maj mi = (maj AND TC_H_MAJ_MASK) OR (mi AND TC_H_MIN_MASK)"

definition TC_H_UNSPEC :: u32 where "TC_H_UNSPEC = 0"
definition TC_H_INGRESS :: u32 where "TC_H_INGRESS = 0xFFFFFFF1"
definition TC_H_CLSACT :: u32 where "TC_H_CLSACT = TC_H_INGRESS"
definition TC_H_MIN_INGRESS :: u32 where "TC_H_MIN_INGRESS = 0xFFF2"
definition TC_H_MIN_EGRESS :: u32 where "TC_H_MIN_EGRESS = 0xFFF3"

definition TCA_KIND :: u16 where "TCA_KIND = 1"
definition TCA_OPTIONS :: u16 where "TCA_OPTIONS = 2"
definition TCA_BPF_FD :: u16 where "TCA_BPF_FD = 6"
definition TCA_BPF_NAME :: u16 where "TCA_BPF_NAME = 7"
definition TCA_BPF_FLAGS :: u16 where "TCA_BPF_FLAGS = 8"
definition TCA_BPF_FLAG_ACT_DIRECT :: u32 where "TCA_BPF_FLAG_ACT_DIRECT = push_bit 0 1"

definition ETH_P_IP :: u16 where "ETH_P_IP = 0x0800"
definition ETH_P_IPV6 :: u16 where "ETH_P_IPV6 = 0x86DD"

definition EBADMSG :: int where "EBADMSG = 74"
definition EMSGSIZE :: int where "EMSGSIZE = 90"

text \<open>\<^verbatim>\<open>htons\<close> on a little-endian host swaps the two bytes.\<close>

definition htons :: "u16 \<Rightarrow> u16" where
  "htons w = push_bit 8 w OR drop_bit 8 w"

text \<open>
  Modelled from the spec: \<^verbatim>\<open>NETLINK_REQUEST_FLAGS\<close> is declared in
  \<^verbatim>\<open>NetlinkCommands.h\<close>, which is not among the sources at hand. Every request is a
  request that asks for the acknowledgement the transport decodes, and the detach request,
  whose flags are this constant alone, carries "no special flags": the constant is
  \<^verbatim>\<open>NLM_F_REQUEST | NLM_F_ACK\<close>.
\<close>

definition NETLINK_REQUEST_FLAGS :: u16 where
  "NETLINK_REQUEST_FLAGS = NLM_F_REQUEST OR NLM_F_ACK"

section \<open>The transport: \<^verbatim>\<open>sendAndProcessNetlinkResponse\<close>\<close>

text \<open>
  What the operating system answers to the system calls of one transaction. A call's
  \<^verbatim>\<open>_rv\<close> is the value it returns and its \<^verbatim>\<open>_errno\<close> the value of \<^verbatim>\<open>errno\<close> after
  it. \<^verbatim>\<open>send\<close> answers to the buffer and length it is given. \<^verbatim>\<open>recv_stored\<close> are
  the bytes \<^verbatim>\<open>recv\<close> stores from the start of the reply buffer, of which the buffer takes
  no more than its capacity; with \<^verbatim>\<open>MSG_TRUNC\<close> the value returned is the datagram's real
  length, which may exceed the capacity. The value of \<^verbatim>\<open>setsockopt\<close> is only logged by the
  source and decides nothing. The descriptor is closed on every path by \<^verbatim>\<open>unique_fd\<close>.
\<close>

record syscalls =
  socket_rv :: int
  socket_errno :: int
  setsockopt_rv :: int
  bind_rv :: int
  bind_errno :: int
  connect_rv :: int
  connect_errno :: int
  send_rv :: "u8 list \<Rightarrow> int \<Rightarrow> int"
  send_errno :: int
  recv_rv :: int
  recv_errno :: int
  recv_stored :: "u8 list"

text \<open>
  \<^verbatim>\<open>struct { nlmsghdr h; nlmsgerr e; char buf[256]; } resp = {}\<close>: its size, the offsets
  of the members read, and its byte image after \<^verbatim>\<open>recv\<close> wrote into the zeroed object.
\<close>

definition sizeof_resp :: nat where
  "sizeof_resp = sizeof_nlmsghdr + sizeof_nlmsgerr + 256"

definition offsetof_resp_h_nlmsg_len :: nat where "offsetof_resp_h_nlmsg_len = 0"
definition offsetof_resp_h_nlmsg_type :: nat where "offsetof_resp_h_nlmsg_type = 4"
definition offsetof_resp_e_error :: nat where "offsetof_resp_e_error = sizeof_nlmsghdr"

definition resp_after_recv :: "u8 list \<Rightarrow> u8 list" where
  "resp_after_recv stored =
     take sizeof_resp stored @ replicate (sizeof_resp - length stored) 0"

definition sendAndProcessNetlinkResponse :: "syscalls \<Rightarrow> u8 list \<Rightarrow> int \<Rightarrow> int" where
  "sendAndProcessNetlinkResponse k req len =
     (if socket_rv k = - 1 then - socket_errno k
      else if bind_rv k \<noteq> 0 then - bind_errno k
      else if connect_rv k \<noteq> 0 then - connect_errno k
      else if send_rv k req len = - 1 then - send_errno k
      else if send_rv k req len \<noteq> len then - EMSGSIZE
      else
        (let resp = resp_after_recv (recv_stored k); rv = recv_rv k
         in if rv = - 1 then - recv_errno k
            else if rv < int (NLMSG_SPACE sizeof_nlmsgerr) then - EMSGSIZE
            else if rd32 resp offsetof_resp_h_nlmsg_len \<noteq> of_int rv then - EBADMSG
            else if rd16 resp offsetof_resp_h_nlmsg_type \<noteq> NLMSG_ERROR then - EBADMSG
            else sint (rd32 resp offsetof_resp_e_error)))"

section \<open>The qdisc builder: \<^verbatim>\<open>doTcQdiscClsact\<close>\<close>

text \<open>The attribute structs \<^verbatim>\<open>struct { nlattr attr; char str[N]; }\<close> and
  \<^verbatim>\<open>struct { nlattr attr; __u32 u32; }\<close>.\<close>

record str_attr =
  sa_attr :: nlattr
  sa_str :: string

record u32_attr =
  ua_attr :: nlattr
  ua_u32 :: u32

definition bytes_of_str_attr :: "str_attr \<Rightarrow> u8 list" where
  "bytes_of_str_attr a = bytes_of_nlattr (sa_attr a) @ bytes_of_chars (sa_str a)"

definition bytes_of_u32_attr :: "u32_attr \<Rightarrow> u8 list" where
  "bytes_of_u32_attr a = bytes_of_nlattr (ua_attr a) @ le32 (ua_u32 a)"

definition CLSACT :: string where "CLSACT = ''clsact''"
definition ASCIIZ_LEN_CLSACT :: nat where "ASCIIZ_LEN_CLSACT = sizeof_lit CLSACT"

record qdisc_req =
  q_n :: nlmsghdr
  q_t :: tcmsg
  q_kind :: str_attr

definition sizeof_qdisc_kind_str :: nat where
  "sizeof_qdisc_kind_str = NLMSG_ALIGN ASCIIZ_LEN_CLSACT"

definition sizeof_qdisc_kind :: nat where
  "sizeof_qdisc_kind = sizeof_nlattr + sizeof_qdisc_kind_str"

definition sizeof_qdisc_req :: nat where
  "sizeof_qdisc_req = sizeof_nlmsghdr + sizeof_tcmsg + sizeof_qdisc_kind"

definition offsetof_qdisc_kind :: nat where
  "offsetof_qdisc_kind = sizeof_nlmsghdr + sizeof_tcmsg"

definition bytes_of_qdisc_req :: "qdisc_req \<Rightarrow> u8 list" where
  "bytes_of_qdisc_req r =
     bytes_of_nlmsghdr (q_n r) @ bytes_of_tcmsg (q_t r) @ bytes_of_str_attr (q_kind r)"

text \<open>The object \<^verbatim>\<open>req\<close> of \<^verbatim>\<open>doTcQdiscClsact\<close>; members the initializer leaves out are
  zero.\<close>

definition doTcQdiscClsact_req :: "s32 \<Rightarrow> u16 \<Rightarrow> u16 \<Rightarrow> qdisc_req" where
  "doTcQdiscClsact_req ifIndex nlMsgType nlMsgFlags =
     \<lparr>q_n = \<lparr>nlmsg_len = of_nat sizeof_qdisc_req,
             nlmsg_type = nlMsgType,
             nlmsg_flags = NETLINK_REQUEST_FLAGS OR nlMsgFlags,
             nlmsg_seq = 0,
             nlmsg_pid = 0\<rparr>,
      q_t = \<lparr>tcm_family = AF_UNSPEC,
             tcm__pad1 = 0,
             tcm__pad2 = 0,
             tcm_ifindex = ifIndex,
             tcm_handle = TC_H_MAKE TC_H_CLSACT 0,
             tcm_parent = TC_H_CLSACT,
             tcm_info = 0\<rparr>,
      q_kind = \<lparr>sa_attr = \<lparr>nla_len = of_nat (NLA_HDRLEN + ASCIIZ_LEN_CLSACT),
                          nla_type = TCA_KIND\<rparr>,
                sa_str = char_array_init sizeof_qdisc_kind_str CLSACT\<rparr>\<rparr>"

definition doTcQdiscClsact :: "syscalls \<Rightarrow> s32 \<Rightarrow> u16 \<Rightarrow> u16 \<Rightarrow> int" where
  "doTcQdiscClsact k ifIndex nlMsgType nlMsgFlags =
     sendAndProcessNetlinkResponse k
       (bytes_of_qdisc_req (doTcQdiscClsact_req ifIndex nlMsgType nlMsgFlags))
       (int sizeof_qdisc_req)"

text \<open>
  Modelled from the spec: the three callers of \<^verbatim>\<open>doTcQdiscClsact\<close> (add, replace, delete)
  are declared in \<^verbatim>\<open>OffloadUtils.h\<close>, which is not among the sources at hand. Their
  arguments are the ones the comment above \<^verbatim>\<open>doTcQdiscClsact\<close> lists:
  ADD \<^verbatim>\<open>RTM_NEWQDISC, NLM_F_EXCL|NLM_F_CREATE\<close>; REPLACE
  \<^verbatim>\<open>RTM_NEWQDISC, NLM_F_CREATE|NLM_F_REPLACE\<close>; DEL \<^verbatim>\<open>RTM_DELQDISC, 0\<close>.
\<close>

definition qdisc_add_req :: "s32 \<Rightarrow> qdisc_req" where
  "qdisc_add_req ifIndex = doTcQdiscClsact_req ifIndex RTM_NEWQDISC (NLM_F_EXCL OR NLM_F_CREATE)"

definition qdisc_replace_req :: "s32 \<Rightarrow> qdisc_req" where
  "qdisc_replace_req ifIndex =
     doTcQdiscClsact_req ifIndex RTM_NEWQDISC (NLM_F_CREATE OR NLM_F_REPLACE)"

definition qdisc_del_req :: "s32 \<Rightarrow> qdisc_req" where
  "qdisc_del_req ifIndex = doTcQdiscClsact_req ifIndex RTM_DELQDISC 0"

section \<open>The filter-attach builder: \<^verbatim>\<open>tcFilterAddDevBpf\<close>\<close>

definition BPF :: string where "BPF = ''bpf''"
definition ASCIIZ_LEN_BPF :: nat where "ASCIIZ_LEN_BPF = sizeof_lit BPF"

definition FSOBJ_SUFFIX :: string where "FSOBJ_SUFFIX = '':[*fsobj]''"

text \<open>
  Modelled from the spec: the four \<^verbatim>\<open>CLAT_..._PROG_..._NAME\<close> macros, the "four fixed
  compile-time strings" of the filter-attach builder, come from a header that is not among
  the sources at hand. Their values are the ones the comments of \<^verbatim>\<open>tcFilterAddDevBpf\<close>
  give for the expansions of \<^verbatim>\<open>NAME_RX_RAWIP\<close>, \<^verbatim>\<open>NAME_RX_ETHER\<close>,
  \<^verbatim>\<open>NAME_TX_RAWIP\<close> and \<^verbatim>\<open>NAME_TX_ETHER\<close>, less the suffix.
\<close>

definition CLAT_INGRESS_PROG_RAWIP_NAME :: string where
  "CLAT_INGRESS_PROG_RAWIP_NAME = ''prog_clatd_schedcls_ingress_clat_rawip''"

definition CLAT_INGRESS_PROG_ETHER_NAME :: string where
  "CLAT_INGRESS_PROG_ETHER_NAME = ''prog_clatd_schedcls_ingress_clat_ether''"

definition CLAT_EGRESS_PROG_RAWIP_NAME :: string where
  "CLAT_EGRESS_PROG_RAWIP_NAME = ''prog_clatd_schedcls_egress_clat_rawip''"

definition CLAT_EGRESS_PROG_ETHER_NAME :: string where
  "CLAT_EGRESS_PROG_ETHER_NAME = ''prog_clatd_schedcls_egress_clat_ether''"

definition NAME_RX_RAWIP :: string where
  "NAME_RX_RAWIP = CLAT_INGRESS_PROG_RAWIP_NAME @ FSOBJ_SUFFIX"

definition NAME_RX_ETHER :: string where
  "NAME_RX_ETHER = CLAT_INGRESS_PROG_ETHER_NAME @ FSOBJ_SUFFIX"

definition NAME_TX_RAWIP :: string where
  "NAME_TX_RAWIP = CLAT_EGRESS_PROG_RAWIP_NAME @ FSOBJ_SUFFIX"

definition NAME_TX_ETHER :: string where
  "NAME_TX_ETHER = CLAT_EGRESS_PROG_ETHER_NAME @ FSOBJ_SUFFIX"

definition ASCIIZ_MAXLEN_NAME_RX :: nat where
  "ASCIIZ_MAXLEN_NAME_RX =
     (if sizeof_lit NAME_RX_RAWIP > sizeof_lit NAME_RX_ETHER then sizeof_lit NAME_RX_RAWIP
      else sizeof_lit NAME_RX_ETHER)"

definition ASCIIZ_MAXLEN_NAME_TX :: nat where
  "ASCIIZ_MAXLEN_NAME_TX =
     (if sizeof_lit NAME_TX_RAWIP > sizeof_lit NAME_TX_ETHER then sizeof_lit NAME_TX_RAWIP
      else sizeof_lit NAME_TX_ETHER)"

definition ASCIIZ_MAXLEN_NAME :: nat where
  "ASCIIZ_MAXLEN_NAME =
     (if ASCIIZ_MAXLEN_NAME_RX > ASCIIZ_MAXLEN_NAME_TX then ASCIIZ_MAXLEN_NAME_RX
      else ASCIIZ_MAXLEN_NAME_TX)"

definition NAME_RX :: "bool \<Rightarrow> string" where
  "NAME_RX ethernet = (if ethernet then NAME_RX_ETHER else NAME_RX_RAWIP)"

definition NAME_TX :: "bool \<Rightarrow> string" where
  "NAME_TX ethernet = (if ethernet then NAME_TX_ETHER else NAME_TX_RAWIP)"

definition NAME :: "bool \<Rightarrow> bool \<Rightarrow> string" where
  "NAME ethernet ingress = (if ingress then NAME_RX ethernet else NAME_TX ethernet)"

record bpf_options =
  o_attr :: nlattr
  o_fd :: u32_attr
  o_name :: str_attr
  o_flags :: u32_attr

record filter_add_req =
  fa_n :: nlmsghdr
  fa_t :: tcmsg
  fa_kind :: str_attr
  fa_options :: bpf_options

definition sizeof_fa_kind_str :: nat where
  "sizeof_fa_kind_str = NLMSG_ALIGN ASCIIZ_LEN_BPF"

definition sizeof_fa_kind :: nat where
  "sizeof_fa_kind = sizeof_nlattr + sizeof_fa_kind_str"

definition sizeof_fa_options_fd :: nat where
  "sizeof_fa_options_fd = sizeof_nlattr + sizeof_u32"

definition sizeof_fa_options_name_str :: nat where
  "sizeof_fa_options_name_str = NLMSG_ALIGN ASCIIZ_MAXLEN_NAME"

definition sizeof_fa_options_name :: nat where
  "sizeof_fa_options_name = sizeof_nlattr + sizeof_fa_options_name_str"

definition sizeof_fa_options_flags :: nat where
  "sizeof_fa_options_flags = sizeof_nlattr + sizeof_u32"

definition sizeof_fa_options :: nat where
  "sizeof_fa_options =
     sizeof_nlattr + sizeof_fa_options_fd + sizeof_fa_options_name + sizeof_fa_options_flags"

definition sizeof_filter_add_req :: nat where
  "sizeof_filter_add_req = sizeof_nlmsghdr + sizeof_tcmsg + sizeof_fa_kind + sizeof_fa_options"

definition offsetof_fa_kind :: nat where
  "offsetof_fa_kind = sizeof_nlmsghdr + sizeof_tcmsg"

definition offsetof_fa_options :: nat where
  "offsetof_fa_options = offsetof_fa_kind + sizeof_fa_kind"

definition offsetof_fa_options_fd :: nat where
  "offsetof_fa_options_fd = offsetof_fa_options + sizeof_nlattr"

definition offsetof_fa_options_name :: nat where
  "offsetof_fa_options_name = offsetof_fa_options_fd + sizeof_fa_options_fd"

definition offsetof_fa_options_flags :: nat where
  "offsetof_fa_options_flags = offsetof_fa_options_name + sizeof_fa_options_name"

definition bytes_of_bpf_options :: "bpf_options \<Rightarrow> u8 list" where
  "bytes_of_bpf_options opt =
     bytes_of_nlattr (o_attr opt) @ bytes_of_u32_attr (o_fd opt)
       @ bytes_of_str_attr (o_name opt) @ bytes_of_u32_attr (o_flags opt)"

definition bytes_of_filter_add_req :: "filter_add_req \<Rightarrow> u8 list" where
  "bytes_of_filter_add_req r =
     bytes_of_nlmsghdr (fa_n r) @ bytes_of_tcmsg (fa_t r) @ bytes_of_str_attr (fa_kind r)
       @ bytes_of_bpf_options (fa_options r)"

definition prio :: u32 where "prio = 1"

text \<open>The object \<^verbatim>\<open>req\<close> of \<^verbatim>\<open>tcFilterAddDevBpf\<close> as its initializer leaves it.\<close>

definition tcFilterAddDevBpf_init :: "s32 \<Rightarrow> s32 \<Rightarrow> bool \<Rightarrow> bool \<Rightarrow> filter_add_req" where
  "tcFilterAddDevBpf_init ifIndex bpfFd ingress ipv6 =
     \<lparr>fa_n = \<lparr>nlmsg_len = of_nat sizeof_filter_add_req,
              nlmsg_type = RTM_NEWTFILTER,
              nlmsg_flags = NETLINK_REQUEST_FLAGS OR NLM_F_EXCL OR NLM_F_CREATE,
              nlmsg_seq = 0,
              nlmsg_pid = 0\<rparr>,
      fa_t = \<lparr>tcm_family = AF_UNSPEC,
              tcm__pad1 = 0,
              tcm__pad2 = 0,
              tcm_ifindex = ifIndex,
              tcm_handle = TC_H_UNSPEC,
              tcm_parent =
                TC_H_MAKE TC_H_CLSACT (if ingress then TC_H_MIN_INGRESS else TC_H_MIN_EGRESS),
              tcm_info =
                push_bit 16 prio OR ucast (if ipv6 then htons ETH_P_IPV6 else htons ETH_P_IP)\<rparr>,
      fa_kind = \<lparr>sa_attr = \<lparr>nla_len = of_nat sizeof_fa_kind, nla_type = TCA_KIND\<rparr>,
                 sa_str = char_array_init sizeof_fa_kind_str BPF\<rparr>,
      fa_options =
        \<lparr>o_attr = \<lparr>nla_len = of_nat sizeof_fa_options, nla_type = TCA_OPTIONS\<rparr>,
         o_fd = \<lparr>ua_attr = \<lparr>nla_len = of_nat sizeof_fa_options_fd, nla_type = TCA_BPF_FD\<rparr>,
                 ua_u32 = bpfFd\<rparr>,
         o_name = \<lparr>sa_attr = \<lparr>nla_len = of_nat sizeof_fa_options_name,
                              nla_type = TCA_BPF_NAME\<rparr>,
                   sa_str = char_array_init sizeof_fa_options_name_str ''placeholder''\<rparr>,
         o_flags = \<lparr>ua_attr = \<lparr>nla_len = of_nat sizeof_fa_options_flags,
                               nla_type = TCA_BPF_FLAGS\<rparr>,
                    ua_u32 = TCA_BPF_FLAG_ACT_DIRECT\<rparr>\<rparr>\<rparr>"

text \<open>\<^verbatim>\<open>req\<close> after
  \<^verbatim>\<open>strncpy(req.options.name.str, NAME, sizeof(req.options.name.str))\<close>; the source of the
  copy is the array the literal \<^verbatim>\<open>NAME\<close> denotes, terminator included.\<close>

definition tcFilterAddDevBpf_req ::
  "s32 \<Rightarrow> s32 \<Rightarrow> bool \<Rightarrow> bool \<Rightarrow> bool \<Rightarrow> filter_add_req" where
  "tcFilterAddDevBpf_req ifIndex bpfFd ethernet ingress ipv6 =
     (let req = tcFilterAddDevBpf_init ifIndex bpfFd ingress ipv6;
          options = fa_options req;
          name = o_name options
      in req\<lparr>fa_options := options\<lparr>o_name := name\<lparr>sa_str :=
           strncpy (sa_str name) (NAME ethernet ingress @ [NUL]) sizeof_fa_options_name_str\<rparr>\<rparr>\<rparr>)"

definition tcFilterAddDevBpf :: "syscalls \<Rightarrow> s32 \<Rightarrow> s32 \<Rightarrow> bool \<Rightarrow> bool \<Rightarrow> bool \<Rightarrow> int" where
  "tcFilterAddDevBpf k ifIndex bpfFd ethernet ingress ipv6 =
     sendAndProcessNetlinkResponse k
       (bytes_of_filter_add_req (tcFilterAddDevBpf_req ifIndex bpfFd ethernet ingress ipv6))
       (int sizeof_filter_add_req)"

section \<open>The filter-detach builder: \<^verbatim>\<open>tcFilterDelDev\<close>\<close>

record filter_del_req =
  fd_n :: nlmsghdr
  fd_t :: tcmsg

definition sizeof_filter_del_req :: nat where
  "sizeof_filter_del_req = sizeof_nlmsghdr + sizeof_tcmsg"

definition bytes_of_filter_del_req :: "filter_del_req \<Rightarrow> u8 list" where
  "bytes_of_filter_del_req r = bytes_of_nlmsghdr (fd_n r) @ bytes_of_tcmsg (fd_t r)"

text \<open>
  \<^verbatim>\<open>(prio << 16) | htons(proto)\<close> is computed on \<^verbatim>\<open>int\<close> after the promotion of both
  16-bit operands, then cast to \<^verbatim>\<open>__u32\<close>: the 32 bits are those of the shifted and
  zero-extended values.
\<close>

definition tcFilterDelDev_req :: "s32 \<Rightarrow> bool \<Rightarrow> u16 \<Rightarrow> u16 \<Rightarrow> filter_del_req" where
  "tcFilterDelDev_req ifIndex ingress prio16 proto =
     \<lparr>fd_n = \<lparr>nlmsg_len = of_nat sizeof_filter_del_req,
              nlmsg_type = RTM_DELTFILTER,
              nlmsg_flags = NETLINK_REQUEST_FLAGS,
              nlmsg_seq = 0,
              nlmsg_pid = 0\<rparr>,
      fd_t = \<lparr>tcm_family = AF_UNSPEC,
              tcm__pad1 = 0,
              tcm__pad2 = 0,
              tcm_ifindex = ifIndex,
              tcm_handle = TC_H_UNSPEC,
              tcm_parent =
                TC_H_MAKE TC_H_CLSACT (if ingress then TC_H_MIN_INGRESS else TC_H_MIN_EGRESS),
              tcm_info = push_bit 16 (ucast prio16) OR ucast (htons proto)\<rparr>\<rparr>"

definition tcFilterDelDev :: "syscalls \<Rightarrow> s32 \<Rightarrow> bool \<Rightarrow> u16 \<Rightarrow> u16 \<Rightarrow> int" where
  "tcFilterDelDev k ifIndex ingress prio16 proto =
     sendAndProcessNetlinkResponse k
       (bytes_of_filter_del_req (tcFilterDelDev_req ifIndex ingress prio16 proto))
       (int sizeof_filter_del_req)"

section \<open>Example transactions\<close>

text \<open>
  A kernel acknowledgement carrying the result \<^verbatim>\<open>-EEXIST\<close> (\<open>-17\<close>) for a qdisc request:
  header, \<^verbatim>\<open>nlmsgerr.error\<close>, and the header of the request it answers.
\<close>

definition example_ack :: "u8 list" where
  "example_ack =
     bytes_of_nlmsghdr \<lparr>nlmsg_len = 36, nlmsg_type = NLMSG_ERROR, nlmsg_flags = 0,
                        nlmsg_seq = 0, nlmsg_pid = 0\<rparr>
       @ le32 (- 17)
       @ bytes_of_nlmsghdr \<lparr>nlmsg_len = 48, nlmsg_type = RTM_NEWQDISC, nlmsg_flags = 0x605,
                            nlmsg_seq = 0, nlmsg_pid = 0\<rparr>"

text \<open>System calls that all succeed: the whole buffer is sent and \<open>example_ack\<close> comes
  back.\<close>

definition example_syscalls :: syscalls where
  "example_syscalls =
     \<lparr>socket_rv = 3, socket_errno = 0, setsockopt_rv = 0,
      bind_rv = 0, bind_errno = 0, connect_rv = 0, connect_errno = 0,
      send_rv = (\<lambda>req len. len), send_errno = 0,
      recv_rv = 36, recv_errno = 0, recv_stored = example_ack\<rparr>"

section \<open>Sizes and lengths\<close>

lemmas abi_size_defs =
  sizeof_nlmsghdr_def sizeof_tcmsg_def sizeof_nlattr_def sizeof_nlmsgerr_def sizeof_u32_def
  NLMSG_ALIGNTO_def NLMSG_ALIGN_def NLMSG_HDRLEN_def NLMSG_LENGTH_def NLMSG_SPACE_def
  NLA_ALIGNTO_def NLA_ALIGN_def NLA_HDRLEN_def sizeof_lit_def

lemmas name_defs =
  NAME_def NAME_RX_def NAME_TX_def NAME_RX_RAWIP_def NAME_RX_ETHER_def NAME_TX_RAWIP_def
  NAME_TX_ETHER_def CLAT_INGRESS_PROG_RAWIP_NAME_def CLAT_INGRESS_PROG_ETHER_NAME_def
  CLAT_EGRESS_PROG_RAWIP_NAME_def CLAT_EGRESS_PROG_ETHER_NAME_def FSOBJ_SUFFIX_def

lemma length_le16 [simp]: "length (le16 w) = 2"
  by (simp add: le16_def)

lemma length_le32 [simp]: "length (le32 w) = 4"
  by (simp add: le32_def)

lemma length_bytes_of_nlmsghdr [simp]: "length (bytes_of_nlmsghdr h) = 16"
  by (simp add: bytes_of_nlmsghdr_def)

lemma length_bytes_of_tcmsg [simp]: "length (bytes_of_tcmsg t) = 20"
  by (simp add: bytes_of_tcmsg_def)

lemma length_bytes_of_nlattr [simp]: "length (bytes_of_nlattr a) = 4"
  by (simp add: bytes_of_nlattr_def)

lemma length_bytes_of_chars [simp]: "length (bytes_of_chars s) = length s"
  by (simp add: bytes_of_chars_def)

lemma length_bytes_of_u32_attr [simp]: "length (bytes_of_u32_attr a) = 8"
  by (simp add: bytes_of_u32_attr_def)

lemma length_bytes_of_str_attr [simp]: "length (bytes_of_str_attr a) = 4 + length (sa_str a)"
  by (simp add: bytes_of_str_attr_def)

lemma sizeof_qdisc_kind_str_val: "sizeof_qdisc_kind_str = 8"
  by (simp add: sizeof_qdisc_kind_str_def ASCIIZ_LEN_CLSACT_def CLSACT_def abi_size_defs)

lemma sizeof_qdisc_req_val: "sizeof_qdisc_req = 48"
  by (simp add: sizeof_qdisc_req_def sizeof_qdisc_kind_def sizeof_qdisc_kind_str_val abi_size_defs)

lemma offsetof_qdisc_kind_val: "offsetof_qdisc_kind = 36"
  by (simp add: offsetof_qdisc_kind_def abi_size_defs)

lemma sizeof_fa_kind_str_val: "sizeof_fa_kind_str = 4"
  by (simp add: sizeof_fa_kind_str_def ASCIIZ_LEN_BPF_def BPF_def abi_size_defs)

lemma length_NAME: "length (NAME ethernet ingress) = (if ingress then 47 else 46)"
  by (simp add: name_defs)

lemma NUL_notin_NAME: "NUL \<notin> set (NAME ethernet ingress)"
  by (simp add: name_defs NUL_def)

lemma ASCIIZ_MAXLEN_NAME_val: "ASCIIZ_MAXLEN_NAME = 48"
  by (simp add: ASCIIZ_MAXLEN_NAME_def ASCIIZ_MAXLEN_NAME_RX_def ASCIIZ_MAXLEN_NAME_TX_def
      sizeof_lit_def name_defs)

lemma sizeof_fa_options_name_str_val: "sizeof_fa_options_name_str = 48"
  by (simp add: sizeof_fa_options_name_str_def ASCIIZ_MAXLEN_NAME_val abi_size_defs)

lemmas fa_size_defs =
  sizeof_filter_add_req_def sizeof_fa_options_def sizeof_fa_options_flags_def
  sizeof_fa_options_name_def sizeof_fa_options_fd_def sizeof_fa_kind_def
  offsetof_fa_kind_def offsetof_fa_options_def offsetof_fa_options_fd_def
  offsetof_fa_options_name_def offsetof_fa_options_flags_def

lemma sizeof_filter_add_req_val: "sizeof_filter_add_req = 116"
  by (simp add: fa_size_defs sizeof_fa_options_name_str_val sizeof_fa_kind_str_val abi_size_defs)

lemma sizeof_filter_del_req_val: "sizeof_filter_del_req = 36"
  by (simp add: sizeof_filter_del_req_def abi_size_defs)

section \<open>String copies\<close>

lemma takeWhile_asciiz: "NUL \<notin> set s \<Longrightarrow> takeWhile (\<lambda>c. c \<noteq> NUL) (s @ NUL # t) = s"
  by (induction s) auto

lemma strncpy_fits:
  assumes "NUL \<notin> set s" and "length s < n" and "length dst = n"
  shows "strncpy dst (s @ [NUL]) n = s @ replicate (n - length s) NUL"
  using assms by (simp add: strncpy_def takeWhile_asciiz)

lemma strlen_padded: "NUL \<notin> set s \<Longrightarrow> 0 < m \<Longrightarrow> strlen (s @ replicate m NUL) = length s"
  by (cases m) (simp_all add: strlen_def takeWhile_asciiz)

lemma name_str_stored:
  "sa_str (o_name (fa_options (tcFilterAddDevBpf_req ifIndex bpfFd ethernet ingress ipv6))) =
     NAME ethernet ingress @ replicate (sizeof_fa_options_name_str - length (NAME ethernet ingress)) NUL"
  by (simp add: tcFilterAddDevBpf_req_def tcFilterAddDevBpf_init_def Let_def strncpy_fits
      NUL_notin_NAME length_NAME sizeof_fa_options_name_str_val char_array_init_def)

lemma kind_str_stored:
  "sa_str (fa_kind (tcFilterAddDevBpf_req ifIndex bpfFd ethernet ingress ipv6)) = BPF @ [NUL]"
  by (simp add: tcFilterAddDevBpf_req_def tcFilterAddDevBpf_init_def Let_def
      sizeof_fa_kind_str_val char_array_init_def BPF_def)

lemma length_bytes_of_filter_add_req:
  "length (bytes_of_filter_add_req (tcFilterAddDevBpf_req ifIndex bpfFd ethernet ingress ipv6)) = 116"
  by (simp add: bytes_of_filter_add_req_def bytes_of_bpf_options_def name_str_stored
      kind_str_stored length_NAME sizeof_fa_options_name_str_val BPF_def)

section \<open>Byte images of the requests\<close>

lemmas const_defs =
  AF_UNSPEC_def TC_H_MAKE_def TC_H_CLSACT_def TC_H_INGRESS_def TC_H_MAJ_MASK_def
  TC_H_MIN_MASK_def TC_H_UNSPEC_def TC_H_MIN_INGRESS_def TC_H_MIN_EGRESS_def
  TCA_KIND_def TCA_OPTIONS_def TCA_BPF_FD_def TCA_BPF_NAME_def TCA_BPF_FLAGS_def
  TCA_BPF_FLAG_ACT_DIRECT_def ETH_P_IP_def ETH_P_IPV6_def htons_def
  NETLINK_REQUEST_FLAGS_def NLM_F_REQUEST_def NLM_F_ACK_def NLM_F_REPLACE_def NLM_F_EXCL_def
  NLM_F_CREATE_def RTM_NEWQDISC_def RTM_DELQDISC_def RTM_NEWTFILTER_def RTM_DELTFILTER_def
  NLMSG_ERROR_def prio_def

lemmas image_defs =
  bytes_of_nlmsghdr_def bytes_of_tcmsg_def bytes_of_nlattr_def bytes_of_str_attr_def
  bytes_of_u32_attr_def bytes_of_chars_def byte_of_char_def le16_def le32_def NUL_def

lemma bytes_of_qdisc_req_explicit:
  "bytes_of_qdisc_req (doTcQdiscClsact_req ifIndex nlMsgType nlMsgFlags) =
     le32 48 @ le16 nlMsgType @ le16 (NETLINK_REQUEST_FLAGS OR nlMsgFlags) @ le32 0 @ le32 0
       @ bytes_of_tcmsg \<lparr>tcm_family = AF_UNSPEC, tcm__pad1 = 0, tcm__pad2 = 0,
           tcm_ifindex = ifIndex, tcm_handle = TC_H_MAKE TC_H_CLSACT 0,
           tcm_parent = TC_H_CLSACT, tcm_info = 0\<rparr>
       @ bytes_of_nlattr \<lparr>nla_len = 11, nla_type = TCA_KIND\<rparr>
       @ bytes_of_chars (CLSACT @ [NUL, NUL])"
  by (simp add: bytes_of_qdisc_req_def doTcQdiscClsact_req_def bytes_of_nlmsghdr_def
      bytes_of_str_attr_def sizeof_qdisc_req_val sizeof_qdisc_kind_str_val char_array_init_def
      CLSACT_def ASCIIZ_LEN_CLSACT_def abi_size_defs numeral_2_eq_2)

lemma bytes_of_filter_add_req_split:
  "bytes_of_filter_add_req (tcFilterAddDevBpf_req ifIndex bpfFd ethernet ingress ipv6) =
     bytes_of_nlmsghdr (fa_n (tcFilterAddDevBpf_req ifIndex bpfFd ethernet ingress ipv6))
       @ bytes_of_tcmsg (fa_t (tcFilterAddDevBpf_req ifIndex bpfFd ethernet ingress ipv6))
       @ (bytes_of_nlattr \<lparr>nla_len = of_nat sizeof_fa_kind, nla_type = TCA_KIND\<rparr>
            @ bytes_of_chars (BPF @ [NUL]))
       @ bytes_of_nlattr \<lparr>nla_len = of_nat sizeof_fa_options, nla_type = TCA_OPTIONS\<rparr>
       @ (bytes_of_nlattr \<lparr>nla_len = of_nat sizeof_fa_options_fd, nla_type = TCA_BPF_FD\<rparr>
            @ le32 bpfFd)
       @ (bytes_of_nlattr \<lparr>nla_len = of_nat sizeof_fa_options_name, nla_type = TCA_BPF_NAME\<rparr>
            @ bytes_of_chars (NAME ethernet ingress
                @ replicate (sizeof_fa_options_name_str - length (NAME ethernet ingress)) NUL))
       @ (bytes_of_nlattr \<lparr>nla_len = of_nat sizeof_fa_options_flags, nla_type = TCA_BPF_FLAGS\<rparr>
            @ le32 TCA_BPF_FLAG_ACT_DIRECT)"
proof -
  have "bytes_of_str_attr (o_name (fa_options
          (tcFilterAddDevBpf_req ifIndex bpfFd ethernet ingress ipv6))) =
        bytes_of_nlattr \<lparr>nla_len = of_nat sizeof_fa_options_name, nla_type = TCA_BPF_NAME\<rparr>
          @ bytes_of_chars (NAME ethernet ingress
              @ replicate (sizeof_fa_options_name_str - length (NAME ethernet ingress)) NUL)"
    unfolding bytes_of_str_attr_def name_str_stored
    by (simp add: tcFilterAddDevBpf_req_def tcFilterAddDevBpf_init_def Let_def)
  moreover have "bytes_of_str_attr (fa_kind
          (tcFilterAddDevBpf_req ifIndex bpfFd ethernet ingress ipv6)) =
        bytes_of_nlattr \<lparr>nla_len = of_nat sizeof_fa_kind, nla_type = TCA_KIND\<rparr>
          @ bytes_of_chars (BPF @ [NUL])"
    unfolding bytes_of_str_attr_def kind_str_stored
    by (simp add: tcFilterAddDevBpf_req_def tcFilterAddDevBpf_init_def Let_def)
  moreover have "o_attr (fa_options (tcFilterAddDevBpf_req ifIndex bpfFd ethernet ingress ipv6)) =
        \<lparr>nla_len = of_nat sizeof_fa_options, nla_type = TCA_OPTIONS\<rparr>"
    and "bytes_of_u32_attr (o_fd (fa_options
          (tcFilterAddDevBpf_req ifIndex bpfFd ethernet ingress ipv6))) =
        bytes_of_nlattr \<lparr>nla_len = of_nat sizeof_fa_options_fd, nla_type = TCA_BPF_FD\<rparr>
          @ le32 bpfFd"
    and "bytes_of_u32_attr (o_flags (fa_options
          (tcFilterAddDevBpf_req ifIndex bpfFd ethernet ingress ipv6))) =
        bytes_of_nlattr \<lparr>nla_len = of_nat sizeof_fa_options_flags, nla_type = TCA_BPF_FLAGS\<rparr>
          @ le32 TCA_BPF_FLAG_ACT_DIRECT"
    by (simp_all add: tcFilterAddDevBpf_req_def tcFilterAddDevBpf_init_def Let_def
        bytes_of_u32_attr_def)
  ultimately show ?thesis
    by (simp add: bytes_of_filter_add_req_def bytes_of_bpf_options_def)
qed

lemma nla_len_values:
  "(of_nat sizeof_fa_kind :: u16) = 8" "(of_nat sizeof_fa_options :: u16) = 72"
  "(of_nat sizeof_fa_options_fd :: u16) = 8" "(of_nat sizeof_fa_options_name :: u16) = 52"
  "(of_nat sizeof_fa_options_flags :: u16) = 8"
  by (simp_all add: fa_size_defs sizeof_fa_options_name_str_val sizeof_fa_kind_str_val
      abi_size_defs)

lemma fa_offsets:
  "offsetof_fa_kind = 36" "offsetof_fa_options = 44" "offsetof_fa_options_fd = 48"
  "offsetof_fa_options_name = 56" "offsetof_fa_options_flags = 108"
  by (simp_all add: fa_size_defs sizeof_fa_options_name_str_val sizeof_fa_kind_str_val
      abi_size_defs)

lemma fa_attrs:
  "sa_attr (fa_kind (tcFilterAddDevBpf_req ifIndex bpfFd ethernet ingress ipv6)) =
     \<lparr>nla_len = 8, nla_type = TCA_KIND\<rparr>"
  "o_attr (fa_options (tcFilterAddDevBpf_req ifIndex bpfFd ethernet ingress ipv6)) =
     \<lparr>nla_len = 72, nla_type = TCA_OPTIONS\<rparr>"
  "o_fd (fa_options (tcFilterAddDevBpf_req ifIndex bpfFd ethernet ingress ipv6)) =
     \<lparr>ua_attr = \<lparr>nla_len = 8, nla_type = TCA_BPF_FD\<rparr>, ua_u32 = bpfFd\<rparr>"
  "sa_attr (o_name (fa_options (tcFilterAddDevBpf_req ifIndex bpfFd ethernet ingress ipv6))) =
     \<lparr>nla_len = 52, nla_type = TCA_BPF_NAME\<rparr>"
  "o_flags (fa_options (tcFilterAddDevBpf_req ifIndex bpfFd ethernet ingress ipv6)) =
     \<lparr>ua_attr = \<lparr>nla_len = 8, nla_type = TCA_BPF_FLAGS\<rparr>, ua_u32 = TCA_BPF_FLAG_ACT_DIRECT\<rparr>"
  by (simp_all add: tcFilterAddDevBpf_req_def tcFilterAddDevBpf_init_def Let_def nla_len_values)

lemma strlen_name_str:
  "strlen (sa_str (o_name (fa_options
      (tcFilterAddDevBpf_req ifIndex bpfFd ethernet ingress ipv6)))) = (if ingress then 47 else 46)"
  unfolding name_str_stored
  by (simp add: strlen_padded NUL_notin_NAME length_NAME sizeof_fa_options_name_str_val)

lemma strlen_kind_str:
  "strlen (sa_str (fa_kind (tcFilterAddDevBpf_req ifIndex bpfFd ethernet ingress ipv6))) = 3"
  unfolding kind_str_stored by (simp add: strlen_def BPF_def NUL_def)

lemma qdisc_kind:
  "q_kind (doTcQdiscClsact_req ifIndex nlMsgType nlMsgFlags) =
     \<lparr>sa_attr = \<lparr>nla_len = 11, nla_type = TCA_KIND\<rparr>, sa_str = CLSACT @ [NUL, NUL]\<rparr>"
  by (simp add: doTcQdiscClsact_req_def sizeof_qdisc_kind_str_val char_array_init_def
      CLSACT_def ASCIIZ_LEN_CLSACT_def abi_size_defs numeral_2_eq_2)

section \<open>The reply buffer\<close>

lemma length_resp_after_recv: "length (resp_after_recv stored) = sizeof_resp"
  by (simp add: resp_after_recv_def)

lemma resp_after_recv_nth:
  "i < sizeof_resp \<Longrightarrow>
     resp_after_recv stored ! i = (if i < length stored then stored ! i else 0)"
  by (simp add: resp_after_recv_def nth_append)

lemma resp_after_recv_take:
  assumes "i < n" and "n \<le> sizeof_resp"
  shows "resp_after_recv (take n stored) ! i = resp_after_recv stored ! i"
  using assms by (simp add: resp_after_recv_nth)

lemma reply_space: "NLMSG_SPACE sizeof_nlmsgerr = 36"
  by (simp add: abi_size_defs)

lemma sizeof_resp_val: "sizeof_resp = 292"
  by (simp add: sizeof_resp_def abi_size_defs)

lemma resp_offsets:
  "offsetof_resp_h_nlmsg_len = 0" "offsetof_resp_h_nlmsg_type = 4" "offsetof_resp_e_error = 16"
  by (simp_all add: offsetof_resp_h_nlmsg_len_def offsetof_resp_h_nlmsg_type_def
      offsetof_resp_e_error_def sizeof_nlmsghdr_def)

lemma reads_within_reply:
  "rd32 (resp_after_recv (take 36 stored)) 0 = rd32 (resp_after_recv stored) 0"
  "rd16 (resp_after_recv (take 36 stored)) 4 = rd16 (resp_after_recv stored) 4"
  "rd32 (resp_after_recv (take 36 stored)) 16 = rd32 (resp_after_recv stored) 16"
  by (simp_all add: rd32_def rd16_def resp_after_recv_take sizeof_resp_val)

lemma unsigned_cast_eq:
  assumes "0 \<le> rv" and "rv < 2 ^ 31"
  shows "(w = (of_int rv :: u32)) = (uint w = rv)"
proof -
  have "uint (of_int rv :: u32) = rv"
    using assms by (simp add: uint_word_of_int take_bit_eq_mod)
  then show ?thesis
    by auto
qed

lemma transport_after_send:
  assumes "socket_rv k \<noteq> - 1" and "bind_rv k = 0" and "connect_rv k = 0"
    and "send_rv k req len = len" and "len \<noteq> - 1" and "recv_rv k \<noteq> - 1"
  shows "sendAndProcessNetlinkResponse k req len =
     (if recv_rv k < 36 then - EMSGSIZE
      else if rd32 (resp_after_recv (recv_stored k)) 0 \<noteq> of_int (recv_rv k) then - EBADMSG
      else if rd16 (resp_after_recv (recv_stored k)) 4 \<noteq> NLMSG_ERROR then - EBADMSG
      else sint (rd32 (resp_after_recv (recv_stored k)) 16))"
  using assms by (simp add: sendAndProcessNetlinkResponse_def Let_def reply_space resp_offsets)

section \<open>Claims\<close>

text \<open>
  C1 (as amended). For every interface index the Add and the Replace request have the same
  length and the same bytes everywhere but in the two bytes of \<^verbatim>\<open>nlmsg_flags\<close> (offsets
  6 and 7), which hold each request's own flags. The Delete request has message type
  \<^verbatim>\<open>RTM_DELQDISC\<close> and, from offset 8 on, the same bytes as the Add request: it carries
  the same \<^verbatim>\<open>TCA_KIND\<close> attribute \<^verbatim>\<open>"clsact"\<close> at offset 36.
\<close>

theorem qdisc_add_replace_del_images:
  "length (bytes_of_qdisc_req (qdisc_add_req ifIndex)) =
     length (bytes_of_qdisc_req (qdisc_replace_req ifIndex))
   \<and> take offsetof_nlmsg_flags (bytes_of_qdisc_req (qdisc_add_req ifIndex)) =
       take offsetof_nlmsg_flags (bytes_of_qdisc_req (qdisc_replace_req ifIndex))
   \<and> drop (offsetof_nlmsg_flags + 2) (bytes_of_qdisc_req (qdisc_add_req ifIndex)) =
       drop (offsetof_nlmsg_flags + 2) (bytes_of_qdisc_req (qdisc_replace_req ifIndex))
   \<and> take 2 (drop offsetof_nlmsg_flags (bytes_of_qdisc_req (qdisc_add_req ifIndex))) =
       le16 (NETLINK_REQUEST_FLAGS OR NLM_F_EXCL OR NLM_F_CREATE)
   \<and> take 2 (drop offsetof_nlmsg_flags (bytes_of_qdisc_req (qdisc_replace_req ifIndex))) =
       le16 (NETLINK_REQUEST_FLAGS OR NLM_F_CREATE OR NLM_F_REPLACE)
   \<and> nlmsg_type (q_n (qdisc_del_req ifIndex)) = RTM_DELQDISC
   \<and> take 2 (drop offsetof_nlmsg_type (bytes_of_qdisc_req (qdisc_del_req ifIndex))) =
       le16 RTM_DELQDISC
   \<and> q_kind (qdisc_del_req ifIndex) = q_kind (qdisc_add_req ifIndex)
   \<and> drop (offsetof_nlmsg_flags + 2) (bytes_of_qdisc_req (qdisc_del_req ifIndex)) =
       drop (offsetof_nlmsg_flags + 2) (bytes_of_qdisc_req (qdisc_add_req ifIndex))
   \<and> drop offsetof_qdisc_kind (bytes_of_qdisc_req (qdisc_del_req ifIndex)) =
       bytes_of_nlattr \<lparr>nla_len = of_nat (NLA_HDRLEN + ASCIIZ_LEN_CLSACT), nla_type = TCA_KIND\<rparr>
         @ bytes_of_chars (CLSACT @ [NUL, NUL])"
proof -
  have hdrlen: "of_nat (NLA_HDRLEN + ASCIIZ_LEN_CLSACT) = (11 :: u16)"
    by (simp add: ASCIIZ_LEN_CLSACT_def CLSACT_def abi_size_defs)
  show ?thesis
    unfolding hdrlen qdisc_add_req_def qdisc_replace_req_def qdisc_del_req_def
      bytes_of_qdisc_req_explicit
    by (simp add: doTcQdiscClsact_req_def offsetof_nlmsg_flags_def offsetof_nlmsg_type_def offsetof_qdisc_kind_val
        le32_def le16_def)
qed

text \<open>
  C1, the claim as stated fails: the Delete request built for interface 5 does contain the
  \<^verbatim>\<open>TCA_KIND\<close> attribute. Its 12 bytes from offset 36 on are the attribute header with
  length 11 and type \<^verbatim>\<open>TCA_KIND\<close> (1), then \<^verbatim>\<open>"clsact"\<close>, its terminator and one byte
  of padding.
\<close>

theorem qdisc_del_carries_kind:
  "length (bytes_of_qdisc_req (qdisc_del_req 5)) = 48
   \<and> drop 36 (bytes_of_qdisc_req (qdisc_del_req 5)) =
       [11, 0, 1, 0] @ bytes_of_chars ''clsact'' @ [0, 0]
   \<and> nla_type (sa_attr (q_kind (qdisc_del_req 5))) = TCA_KIND
   \<and> sa_str (q_kind (qdisc_del_req 5)) = ''clsact'' @ [NUL, NUL]"
  by code_simp

text \<open>
  C2 (as amended). In every request of \<^verbatim>\<open>doTcQdiscClsact\<close> and of \<^verbatim>\<open>tcFilterAddDevBpf\<close>:
  each attribute header stands in the byte image at its offset, and every offset is a
  multiple of 4; each attribute is followed, \<^verbatim>\<open>NLA_ALIGN(nla_len)\<close> bytes after its start,
  by the next one or by the end of the image. The length of both kind attributes is the
  header plus the kind string with its terminator (no padding counted); the length of the
  descriptor and of the flags attribute is the header plus the four bytes of the value; the
  length of the options attribute is the header plus the padded sizes of its three
  children. The length of the name attribute is the header plus the capacity of the name
  field, \<^verbatim>\<open>ASCIIZ_MAXLEN_NAME\<close> (48): that is the string with its terminator for an ingress
  name, and one NUL byte more than that for an egress name.
\<close>

theorem attribute_lengths_and_offsets:
  "unat (nla_len (sa_attr (q_kind (doTcQdiscClsact_req ifIndex nlMsgType nlMsgFlags)))) =
     NLA_HDRLEN + (strlen (sa_str (q_kind (doTcQdiscClsact_req ifIndex nlMsgType nlMsgFlags))) + 1)
   \<and> offsetof_qdisc_kind mod 4 = 0
   \<and> take sizeof_nlattr (drop offsetof_qdisc_kind
        (bytes_of_qdisc_req (doTcQdiscClsact_req ifIndex nlMsgType nlMsgFlags))) =
       bytes_of_nlattr (sa_attr (q_kind (doTcQdiscClsact_req ifIndex nlMsgType nlMsgFlags)))
   \<and> offsetof_qdisc_kind
        + NLA_ALIGN (unat (nla_len (sa_attr (q_kind
            (doTcQdiscClsact_req ifIndex nlMsgType nlMsgFlags))))) =
       length (bytes_of_qdisc_req (doTcQdiscClsact_req ifIndex nlMsgType nlMsgFlags))
   \<and> unat (nla_len (sa_attr (fa_kind (tcFilterAddDevBpf_req ifIndex bpfFd ethernet ingress ipv6)))) =
       NLA_HDRLEN
         + (strlen (sa_str (fa_kind (tcFilterAddDevBpf_req ifIndex bpfFd ethernet ingress ipv6)))
            + 1)
   \<and> unat (nla_len (ua_attr (o_fd (fa_options
        (tcFilterAddDevBpf_req ifIndex bpfFd ethernet ingress ipv6))))) = NLA_HDRLEN + sizeof_u32
   \<and> unat (nla_len (ua_attr (o_flags (fa_options
        (tcFilterAddDevBpf_req ifIndex bpfFd ethernet ingress ipv6))))) = NLA_HDRLEN + sizeof_u32
   \<and> unat (nla_len (sa_attr (o_name (fa_options
        (tcFilterAddDevBpf_req ifIndex bpfFd ethernet ingress ipv6))))) =
       NLA_HDRLEN + ASCIIZ_MAXLEN_NAME
   \<and> ASCIIZ_MAXLEN_NAME =
       strlen (sa_str (o_name (fa_options
         (tcFilterAddDevBpf_req ifIndex bpfFd ethernet ingress ipv6)))) + 1
         + (if ingress then 0 else 1)
   \<and> unat (nla_len (o_attr (fa_options
        (tcFilterAddDevBpf_req ifIndex bpfFd ethernet ingress ipv6)))) =
       NLA_HDRLEN
         + NLA_ALIGN (unat (nla_len (ua_attr (o_fd (fa_options
             (tcFilterAddDevBpf_req ifIndex bpfFd ethernet ingress ipv6))))))
         + NLA_ALIGN (unat (nla_len (sa_attr (o_name (fa_options
             (tcFilterAddDevBpf_req ifIndex bpfFd ethernet ingress ipv6))))))
         + NLA_ALIGN (unat (nla_len (ua_attr (o_flags (fa_options
             (tcFilterAddDevBpf_req ifIndex bpfFd ethernet ingress ipv6))))))
   \<and> offsetof_fa_kind mod 4 = 0
   \<and> offsetof_fa_options mod 4 = 0
   \<and> offsetof_fa_options_fd mod 4 = 0
   \<and> offsetof_fa_options_name mod 4 = 0
   \<and> offsetof_fa_options_flags mod 4 = 0
   \<and> take sizeof_nlattr (drop offsetof_fa_kind (bytes_of_filter_add_req
        (tcFilterAddDevBpf_req ifIndex bpfFd ethernet ingress ipv6))) =
       bytes_of_nlattr (sa_attr (fa_kind
         (tcFilterAddDevBpf_req ifIndex bpfFd ethernet ingress ipv6)))
   \<and> take sizeof_nlattr (drop offsetof_fa_options (bytes_of_filter_add_req
        (tcFilterAddDevBpf_req ifIndex bpfFd ethernet ingress ipv6))) =
       bytes_of_nlattr (o_attr (fa_options
         (tcFilterAddDevBpf_req ifIndex bpfFd ethernet ingress ipv6)))
   \<and> take sizeof_nlattr (drop offsetof_fa_options_fd (bytes_of_filter_add_req
        (tcFilterAddDevBpf_req ifIndex bpfFd ethernet ingress ipv6))) =
       bytes_of_nlattr (ua_attr (o_fd (fa_options
         (tcFilterAddDevBpf_req ifIndex bpfFd ethernet ingress ipv6))))
   \<and> take sizeof_nlattr (drop offsetof_fa_options_name (bytes_of_filter_add_req
        (tcFilterAddDevBpf_req ifIndex bpfFd ethernet ingress ipv6))) =
       bytes_of_nlattr (sa_attr (o_name (fa_options
         (tcFilterAddDevBpf_req ifIndex bpfFd ethernet ingress ipv6))))
   \<and> take sizeof_nlattr (drop offsetof_fa_options_flags (bytes_of_filter_add_req
        (tcFilterAddDevBpf_req ifIndex bpfFd ethernet ingress ipv6))) =
       bytes_of_nlattr (ua_attr (o_flags (fa_options
         (tcFilterAddDevBpf_req ifIndex bpfFd ethernet ingress ipv6))))
   \<and> offsetof_fa_kind
        + NLA_ALIGN (unat (nla_len (sa_attr (fa_kind
            (tcFilterAddDevBpf_req ifIndex bpfFd ethernet ingress ipv6))))) = offsetof_fa_options
   \<and> offsetof_fa_options_fd
        + NLA_ALIGN (unat (nla_len (ua_attr (o_fd (fa_options
            (tcFilterAddDevBpf_req ifIndex bpfFd ethernet ingress ipv6)))))) =
       offsetof_fa_options_name
   \<and> offsetof_fa_options_name
        + NLA_ALIGN (unat (nla_len (sa_attr (o_name (fa_options
            (tcFilterAddDevBpf_req ifIndex bpfFd ethernet ingress ipv6)))))) =
       offsetof_fa_options_flags
   \<and> offsetof_fa_options_flags
        + NLA_ALIGN (unat (nla_len (ua_attr (o_flags (fa_options
            (tcFilterAddDevBpf_req ifIndex bpfFd ethernet ingress ipv6)))))) =
       length (bytes_of_filter_add_req (tcFilterAddDevBpf_req ifIndex bpfFd ethernet ingress ipv6))
   \<and> offsetof_fa_options
        + NLA_ALIGN (unat (nla_len (o_attr (fa_options
            (tcFilterAddDevBpf_req ifIndex bpfFd ethernet ingress ipv6))))) =
       length (bytes_of_filter_add_req (tcFilterAddDevBpf_req ifIndex bpfFd ethernet ingress ipv6))"
proof -
  have q_str: "strlen (CLSACT @ [NUL, NUL]) = 6"
    by (simp add: strlen_def CLSACT_def NUL_def)
  have q_image: "take 4 (drop 36
      (bytes_of_qdisc_req (doTcQdiscClsact_req ifIndex nlMsgType nlMsgFlags))) =
      bytes_of_nlattr \<lparr>nla_len = 11, nla_type = TCA_KIND\<rparr>"
    unfolding bytes_of_qdisc_req_explicit by simp
  have q_length: "length (bytes_of_qdisc_req (doTcQdiscClsact_req ifIndex nlMsgType nlMsgFlags)) = 48"
    unfolding bytes_of_qdisc_req_explicit by (simp add: CLSACT_def)
  have a_image:
    "take 4 (drop 36 (bytes_of_filter_add_req
        (tcFilterAddDevBpf_req ifIndex bpfFd ethernet ingress ipv6))) =
       bytes_of_nlattr \<lparr>nla_len = 8, nla_type = TCA_KIND\<rparr>"
    "take 4 (drop 44 (bytes_of_filter_add_req
        (tcFilterAddDevBpf_req ifIndex bpfFd ethernet ingress ipv6))) =
       bytes_of_nlattr \<lparr>nla_len = 72, nla_type = TCA_OPTIONS\<rparr>"
    "take 4 (drop 48 (bytes_of_filter_add_req
        (tcFilterAddDevBpf_req ifIndex bpfFd ethernet ingress ipv6))) =
       bytes_of_nlattr \<lparr>nla_len = 8, nla_type = TCA_BPF_FD\<rparr>"
    "take 4 (drop 56 (bytes_of_filter_add_req
        (tcFilterAddDevBpf_req ifIndex bpfFd ethernet ingress ipv6))) =
       bytes_of_nlattr \<lparr>nla_len = 52, nla_type = TCA_BPF_NAME\<rparr>"
    "take 4 (drop 108 (bytes_of_filter_add_req
        (tcFilterAddDevBpf_req ifIndex bpfFd ethernet ingress ipv6))) =
       bytes_of_nlattr \<lparr>nla_len = 8, nla_type = TCA_BPF_FLAGS\<rparr>"
    unfolding bytes_of_filter_add_req_split nla_len_values
    by (simp_all add: BPF_def length_NAME sizeof_fa_options_name_str_val)
  show ?thesis
    unfolding fa_attrs qdisc_kind fa_offsets offsetof_qdisc_kind_val strlen_name_str
      strlen_kind_str length_bytes_of_filter_add_req q_length sizeof_nlattr_def
    by (simp add: q_str q_image a_image ASCIIZ_MAXLEN_NAME_val sizeof_u32_def NLA_HDRLEN_def
        NLA_ALIGN_def NLA_ALIGNTO_def sizeof_nlattr_def)
qed

text \<open>
  C2, the claim as stated fails for the name attribute of an egress request: for
  \<^verbatim>\<open>ifIndex = 5\<close>, \<^verbatim>\<open>bpfFd = 42\<close>, raw IP, egress, IPv4 the length field is 52, while the
  header and the name with its terminator are 4 + 47 = 51 bytes; the field counts the byte
  that pads 51 to a multiple of 4.
\<close>

theorem egress_name_length_counts_padding:
  "unat (nla_len (sa_attr (o_name (fa_options (tcFilterAddDevBpf_req 5 42 False False False))))) = 52
   \<and> NLA_HDRLEN
        + (strlen (sa_str (o_name (fa_options (tcFilterAddDevBpf_req 5 42 False False False)))) + 1)
       = 51
   \<and> NLA_ALIGN 51 = 52
   \<and> sa_str (o_name (fa_options (tcFilterAddDevBpf_req 5 42 False False False))) =
       ''prog_clatd_schedcls_egress_clat_rawip:[*fsobj]'' @ [NUL, NUL]"
  by code_simp

text \<open>
  C3. For every request any of the three builders constructs, with any arguments, the
  header's \<^verbatim>\<open>nlmsg_len\<close> is exactly the number of bytes handed to the transport: the
  length argument of \<^verbatim>\<open>sendAndProcessNetlinkResponse\<close> is the value of the field, the
  byte image of the request has that many bytes, and the first four bytes of the image
  read back as that number.
\<close>

theorem header_length_is_bytes_sent:
  "doTcQdiscClsact k ifIndex nlMsgType nlMsgFlags =
     sendAndProcessNetlinkResponse k
       (bytes_of_qdisc_req (doTcQdiscClsact_req ifIndex nlMsgType nlMsgFlags))
       (int (unat (nlmsg_len (q_n (doTcQdiscClsact_req ifIndex nlMsgType nlMsgFlags)))))
   \<and> length (bytes_of_qdisc_req (doTcQdiscClsact_req ifIndex nlMsgType nlMsgFlags)) =
       unat (nlmsg_len (q_n (doTcQdiscClsact_req ifIndex nlMsgType nlMsgFlags)))
   \<and> rd32 (bytes_of_qdisc_req (doTcQdiscClsact_req ifIndex nlMsgType nlMsgFlags)) 0 =
       of_nat (length (bytes_of_qdisc_req (doTcQdiscClsact_req ifIndex nlMsgType nlMsgFlags)))
   \<and> tcFilterAddDevBpf k ifIndex bpfFd ethernet ingress ipv6 =
     sendAndProcessNetlinkResponse k
       (bytes_of_filter_add_req (tcFilterAddDevBpf_req ifIndex bpfFd ethernet ingress ipv6))
       (int (unat (nlmsg_len (fa_n (tcFilterAddDevBpf_req ifIndex bpfFd ethernet ingress ipv6)))))
   \<and> length (bytes_of_filter_add_req (tcFilterAddDevBpf_req ifIndex bpfFd ethernet ingress ipv6)) =
       unat (nlmsg_len (fa_n (tcFilterAddDevBpf_req ifIndex bpfFd ethernet ingress ipv6)))
   \<and> rd32 (bytes_of_filter_add_req (tcFilterAddDevBpf_req ifIndex bpfFd ethernet ingress ipv6)) 0 =
       of_nat (length (bytes_of_filter_add_req
         (tcFilterAddDevBpf_req ifIndex bpfFd ethernet ingress ipv6)))
   \<and> tcFilterDelDev k ifIndex ingress prio16 proto =
     sendAndProcessNetlinkResponse k
       (bytes_of_filter_del_req (tcFilterDelDev_req ifIndex ingress prio16 proto))
       (int (unat (nlmsg_len (fd_n (tcFilterDelDev_req ifIndex ingress prio16 proto)))))
   \<and> length (bytes_of_filter_del_req (tcFilterDelDev_req ifIndex ingress prio16 proto)) =
       unat (nlmsg_len (fd_n (tcFilterDelDev_req ifIndex ingress prio16 proto)))
   \<and> rd32 (bytes_of_filter_del_req (tcFilterDelDev_req ifIndex ingress prio16 proto)) 0 =
       of_nat (length (bytes_of_filter_del_req (tcFilterDelDev_req ifIndex ingress prio16 proto)))"
proof -
  have q_len: "nlmsg_len (q_n (doTcQdiscClsact_req ifIndex nlMsgType nlMsgFlags)) = 48"
    by (simp add: doTcQdiscClsact_req_def sizeof_qdisc_req_val)
  have q_bytes: "length (bytes_of_qdisc_req (doTcQdiscClsact_req ifIndex nlMsgType nlMsgFlags)) = 48"
    by (simp add: bytes_of_qdisc_req_def doTcQdiscClsact_req_def sizeof_qdisc_kind_str_val
        char_array_init_def CLSACT_def)
  have q_rd: "rd32 (bytes_of_qdisc_req (doTcQdiscClsact_req ifIndex nlMsgType nlMsgFlags)) 0 = 48"
    by (simp add: bytes_of_qdisc_req_def doTcQdiscClsact_req_def sizeof_qdisc_req_val
        bytes_of_nlmsghdr_def le32_def rd32_def)
  have a_len: "nlmsg_len (fa_n (tcFilterAddDevBpf_req ifIndex bpfFd ethernet ingress ipv6)) = 116"
    by (simp add: tcFilterAddDevBpf_req_def tcFilterAddDevBpf_init_def Let_def
        sizeof_filter_add_req_val)
  have a_rd: "rd32 (bytes_of_filter_add_req
      (tcFilterAddDevBpf_req ifIndex bpfFd ethernet ingress ipv6)) 0 = 116"
    by (simp add: bytes_of_filter_add_req_def tcFilterAddDevBpf_req_def
        tcFilterAddDevBpf_init_def Let_def sizeof_filter_add_req_val bytes_of_nlmsghdr_def
        le32_def rd32_def)
  have d_len: "nlmsg_len (fd_n (tcFilterDelDev_req ifIndex ingress prio16 proto)) = 36"
    by (simp add: tcFilterDelDev_req_def sizeof_filter_del_req_val)
  have d_bytes: "length (bytes_of_filter_del_req (tcFilterDelDev_req ifIndex ingress prio16 proto)) = 36"
    by (simp add: bytes_of_filter_del_req_def)
  have d_rd: "rd32 (bytes_of_filter_del_req (tcFilterDelDev_req ifIndex ingress prio16 proto)) 0 = 36"
    by (simp add: bytes_of_filter_del_req_def tcFilterDelDev_req_def sizeof_filter_del_req_val
        bytes_of_nlmsghdr_def le32_def rd32_def)
  show ?thesis
    by (simp add: q_len q_bytes q_rd a_len a_rd d_len d_bytes d_rd length_bytes_of_filter_add_req
        doTcQdiscClsact_def tcFilterAddDevBpf_def tcFilterDelDev_def sizeof_qdisc_req_val
        sizeof_filter_add_req_val sizeof_filter_del_req_val)
qed

text \<open>
  C4. Once the socket is open, bound and connected: when \<^verbatim>\<open>send\<close> fails (returns -1) the
  transaction returns the negated \<^verbatim>\<open>errno\<close> of that call, a negative code for every
  positive \<^verbatim>\<open>errno\<close>; when \<^verbatim>\<open>send\<close> reports fewer bytes than the request length the
  transaction returns \<^verbatim>\<open>-EMSGSIZE\<close>.
\<close>

theorem send_failures:
  assumes "socket_rv k \<noteq> - 1" and "bind_rv k = 0" and "connect_rv k = 0"
  shows "(send_rv k req len = - 1 \<longrightarrow>
            sendAndProcessNetlinkResponse k req len = - send_errno k)
       \<and> (send_rv k req len = - 1 \<and> 0 < send_errno k \<longrightarrow>
            sendAndProcessNetlinkResponse k req len < 0)
       \<and> (0 \<le> send_rv k req len \<and> send_rv k req len < len \<longrightarrow>
            sendAndProcessNetlinkResponse k req len = - EMSGSIZE)
       \<and> - EMSGSIZE < 0"
  using assms by (auto simp add: sendAndProcessNetlinkResponse_def EMSGSIZE_def)

theorem send_failures_witness:
  "sendAndProcessNetlinkResponse (example_syscalls\<lparr>send_rv := (\<lambda>req len. - 1), send_errno := 11\<rparr>)
      (bytes_of_qdisc_req (qdisc_add_req 5)) 48 = - 11
   \<and> sendAndProcessNetlinkResponse (example_syscalls\<lparr>send_rv := (\<lambda>req len. 40)\<rparr>)
      (bytes_of_qdisc_req (qdisc_add_req 5)) 48 = - EMSGSIZE"
  using
    send_failures [of "example_syscalls\<lparr>send_rv := (\<lambda>req len. - 1), send_errno := 11\<rparr>"
      "bytes_of_qdisc_req (qdisc_add_req 5)" 48]
    send_failures [of "example_syscalls\<lparr>send_rv := (\<lambda>req len. 40)\<rparr>"
      "bytes_of_qdisc_req (qdisc_add_req 5)" 48]
  by (simp add: example_syscalls_def)

text \<open>
  C5. Once the request is sent and \<^verbatim>\<open>recv\<close> has returned a count \<open>rv\<close> (not -1, an
  \<^verbatim>\<open>int\<close>): a reply shorter than \<^verbatim>\<open>NLMSG_SPACE(sizeof(nlmsgerr))\<close> gives \<^verbatim>\<open>-EMSGSIZE\<close>;
  a reply of at least that size whose \<^verbatim>\<open>nlmsg_len\<close> is not \<open>rv\<close>, or whose
  \<^verbatim>\<open>nlmsg_type\<close> is not \<^verbatim>\<open>NLMSG_ERROR\<close>, gives \<^verbatim>\<open>-EBADMSG\<close>; both are negative. Only a
  reply passing the three checks gives the embedded \<^verbatim>\<open>error\<close>. The members read lie
  within the first \<^verbatim>\<open>NLMSG_SPACE(sizeof(nlmsgerr))\<close> bytes of \<^verbatim>\<open>resp\<close>, which is larger
  than that; the result does not depend on any byte stored past them, and for a short reply
  on no byte of the buffer at all.
\<close>

theorem reply_validation:
  assumes "socket_rv k \<noteq> - 1" and "bind_rv k = 0" and "connect_rv k = 0"
    and "send_rv k req len = len" and "len \<noteq> - 1"
    and "recv_rv k \<noteq> - 1" and "recv_rv k < 2 ^ 31"
  shows "(recv_rv k < int (NLMSG_SPACE sizeof_nlmsgerr) \<longrightarrow>
            sendAndProcessNetlinkResponse k req len = - EMSGSIZE)
       \<and> (int (NLMSG_SPACE sizeof_nlmsgerr) \<le> recv_rv k
            \<and> uint (rd32 (resp_after_recv (recv_stored k)) offsetof_resp_h_nlmsg_len) \<noteq> recv_rv k
          \<longrightarrow> sendAndProcessNetlinkResponse k req len = - EBADMSG)
       \<and> (int (NLMSG_SPACE sizeof_nlmsgerr) \<le> recv_rv k
            \<and> rd16 (resp_after_recv (recv_stored k)) offsetof_resp_h_nlmsg_type \<noteq> NLMSG_ERROR
          \<longrightarrow> sendAndProcessNetlinkResponse k req len = - EBADMSG)
       \<and> (int (NLMSG_SPACE sizeof_nlmsgerr) \<le> recv_rv k
            \<and> uint (rd32 (resp_after_recv (recv_stored k)) offsetof_resp_h_nlmsg_len) = recv_rv k
            \<and> rd16 (resp_after_recv (recv_stored k)) offsetof_resp_h_nlmsg_type = NLMSG_ERROR
          \<longrightarrow> sendAndProcessNetlinkResponse k req len =
                sint (rd32 (resp_after_recv (recv_stored k)) offsetof_resp_e_error))
       \<and> - EMSGSIZE < 0 \<and> - EBADMSG < 0
       \<and> length (resp_after_recv (recv_stored k)) = sizeof_resp
       \<and> offsetof_resp_h_nlmsg_len + 4 \<le> NLMSG_SPACE sizeof_nlmsgerr
       \<and> offsetof_resp_h_nlmsg_type + 2 \<le> NLMSG_SPACE sizeof_nlmsgerr
       \<and> offsetof_resp_e_error + 4 \<le> NLMSG_SPACE sizeof_nlmsgerr
       \<and> NLMSG_SPACE sizeof_nlmsgerr \<le> sizeof_resp
       \<and> sendAndProcessNetlinkResponse
            (k\<lparr>recv_stored := take (NLMSG_SPACE sizeof_nlmsgerr) (recv_stored k)\<rparr>) req len =
          sendAndProcessNetlinkResponse k req len"
proof -
  let ?k' = "k\<lparr>recv_stored := take 36 (recv_stored k)\<rparr>"
  have R: "sendAndProcessNetlinkResponse k req len =
     (if recv_rv k < 36 then - EMSGSIZE
      else if rd32 (resp_after_recv (recv_stored k)) 0 \<noteq> of_int (recv_rv k) then - EBADMSG
      else if rd16 (resp_after_recv (recv_stored k)) 4 \<noteq> NLMSG_ERROR then - EBADMSG
      else sint (rd32 (resp_after_recv (recv_stored k)) 16))"
    by (rule transport_after_send) (use assms in simp_all)
  have R': "sendAndProcessNetlinkResponse ?k' req len =
     (if recv_rv ?k' < 36 then - EMSGSIZE
      else if rd32 (resp_after_recv (recv_stored ?k')) 0 \<noteq> of_int (recv_rv ?k') then - EBADMSG
      else if rd16 (resp_after_recv (recv_stored ?k')) 4 \<noteq> NLMSG_ERROR then - EBADMSG
      else sint (rd32 (resp_after_recv (recv_stored ?k')) 16))"
    by (rule transport_after_send) (use assms in simp_all)
  have same: "sendAndProcessNetlinkResponse ?k' req len = sendAndProcessNetlinkResponse k req len"
    unfolding R R' by (simp add: reads_within_reply)
  have cast: "36 \<le> recv_rv k \<Longrightarrow>
      (rd32 (resp_after_recv (recv_stored k)) 0 = of_int (recv_rv k)) =
      (uint (rd32 (resp_after_recv (recv_stored k)) 0) = recv_rv k)"
    using assms(7) by (intro unsigned_cast_eq) simp_all
  show ?thesis
    unfolding reply_space resp_offsets same
    using cast by (simp add: R EMSGSIZE_def EBADMSG_def length_resp_after_recv sizeof_resp_val)
qed

theorem reply_validation_witness:
  "sendAndProcessNetlinkResponse example_syscalls (bytes_of_qdisc_req (qdisc_add_req 5)) 48 = - 17
   \<and> sendAndProcessNetlinkResponse (example_syscalls\<lparr>recv_rv := 20\<rparr>)
        (bytes_of_qdisc_req (qdisc_add_req 5)) 48 = - EMSGSIZE"
proof -
  have ack: "int (NLMSG_SPACE sizeof_nlmsgerr) \<le> recv_rv example_syscalls
      \<and> uint (rd32 (resp_after_recv (recv_stored example_syscalls)) offsetof_resp_h_nlmsg_len) =
          recv_rv example_syscalls
      \<and> rd16 (resp_after_recv (recv_stored example_syscalls)) offsetof_resp_h_nlmsg_type =
          NLMSG_ERROR"
    by code_simp
  have err: "sint (rd32 (resp_after_recv (recv_stored example_syscalls)) offsetof_resp_e_error) =
      - 17"
    by code_simp
  have short: "recv_rv (example_syscalls\<lparr>recv_rv := 20\<rparr>) < int (NLMSG_SPACE sizeof_nlmsgerr)"
    by (simp add: reply_space)
  from ack err short
    reply_validation [of example_syscalls "bytes_of_qdisc_req (qdisc_add_req 5)" 48]
    reply_validation [of "example_syscalls\<lparr>recv_rv := 20\<rparr>"
      "bytes_of_qdisc_req (qdisc_add_req 5)" 48]
  show ?thesis
    by (simp add: example_syscalls_def)
qed

text \<open>
  C6 (as amended). Once the request is sent and \<^verbatim>\<open>recv\<close> has returned a count, every
  protocol violation is reported with an \<^verbatim>\<open>errno\<close> constant the transport itself chooses:
  \<^verbatim>\<open>-EMSGSIZE\<close> for a reply that is too short, \<^verbatim>\<open>-EBADMSG\<close> for a declared length
  that is not the count received and for a message type that is not \<^verbatim>\<open>NLMSG_ERROR\<close>.
  These are values of the one space of negated \<^verbatim>\<open>errno\<close> codes that the failures of the
  system calls are reported in: with the same system calls but a short \<^verbatim>\<open>send\<close> the
  result is \<^verbatim>\<open>-EMSGSIZE\<close> as well, and a failing \<^verbatim>\<open>recv\<close> or \<^verbatim>\<open>socket\<close> gives the
  negation of whatever \<^verbatim>\<open>errno\<close> it leaves.
\<close>

theorem protocol_violation_codes:
  assumes "socket_rv k \<noteq> - 1" and "bind_rv k = 0" and "connect_rv k = 0"
    and "send_rv k req len = len" and "0 < len"
    and "recv_rv k \<noteq> - 1" and "recv_rv k < 2 ^ 31"
  shows "(recv_rv k < int (NLMSG_SPACE sizeof_nlmsgerr) \<longrightarrow>
            sendAndProcessNetlinkResponse k req len = - EMSGSIZE)
       \<and> (int (NLMSG_SPACE sizeof_nlmsgerr) \<le> recv_rv k
            \<and> uint (rd32 (resp_after_recv (recv_stored k)) offsetof_resp_h_nlmsg_len) \<noteq> recv_rv k
          \<longrightarrow> sendAndProcessNetlinkResponse k req len = - EBADMSG)
       \<and> (int (NLMSG_SPACE sizeof_nlmsgerr) \<le> recv_rv k
            \<and> rd16 (resp_after_recv (recv_stored k)) offsetof_resp_h_nlmsg_type \<noteq> NLMSG_ERROR
          \<longrightarrow> sendAndProcessNetlinkResponse k req len = - EBADMSG)
       \<and> sendAndProcessNetlinkResponse (k\<lparr>send_rv := (\<lambda>req len. len - 1)\<rparr>) req len = - EMSGSIZE
       \<and> sendAndProcessNetlinkResponse (k\<lparr>recv_rv := - 1, recv_errno := e\<rparr>) req len = - e
       \<and> sendAndProcessNetlinkResponse (k\<lparr>socket_rv := - 1, socket_errno := e\<rparr>) req len = - e
       \<and> EMSGSIZE = 90 \<and> EBADMSG = 74"
proof -
  have R: "sendAndProcessNetlinkResponse k req len =
     (if recv_rv k < 36 then - EMSGSIZE
      else if rd32 (resp_after_recv (recv_stored k)) 0 \<noteq> of_int (recv_rv k) then - EBADMSG
      else if rd16 (resp_after_recv (recv_stored k)) 4 \<noteq> NLMSG_ERROR then - EBADMSG
      else sint (rd32 (resp_after_recv (recv_stored k)) 16))"
    by (rule transport_after_send) (use assms in simp_all)
  have cast: "36 \<le> recv_rv k \<Longrightarrow>
      (rd32 (resp_after_recv (recv_stored k)) 0 = of_int (recv_rv k)) =
      (uint (rd32 (resp_after_recv (recv_stored k)) 0) = recv_rv k)"
    using assms(7) by (intro unsigned_cast_eq) simp_all
  have short_send:
    "sendAndProcessNetlinkResponse (k\<lparr>send_rv := (\<lambda>req len. len - 1)\<rparr>) req len = - EMSGSIZE"
    using assms by (simp add: sendAndProcessNetlinkResponse_def)
  have recv_fails:
    "sendAndProcessNetlinkResponse (k\<lparr>recv_rv := - 1, recv_errno := e\<rparr>) req len = - e"
    using assms by (simp add: sendAndProcessNetlinkResponse_def Let_def)
  have socket_fails:
    "sendAndProcessNetlinkResponse (k\<lparr>socket_rv := - 1, socket_errno := e\<rparr>) req len = - e"
    by (simp add: sendAndProcessNetlinkResponse_def)
  show ?thesis
    unfolding reply_space resp_offsets short_send recv_fails socket_fails
    using cast by (simp add: R EMSGSIZE_def EBADMSG_def)
qed

theorem protocol_violation_codes_witness:
  "sendAndProcessNetlinkResponse
      (example_syscalls\<lparr>recv_rv := 20, recv_stored := take 20 example_ack\<rparr>)
      (bytes_of_qdisc_req (qdisc_add_req 5)) 48 = - EMSGSIZE
   \<and> sendAndProcessNetlinkResponse (example_syscalls\<lparr>recv_stored := example_ack[4 := 16]\<rparr>)
      (bytes_of_qdisc_req (qdisc_add_req 5)) 48 = - EBADMSG"
proof -
  have wrong_type: "int (NLMSG_SPACE sizeof_nlmsgerr) \<le>
        recv_rv (example_syscalls\<lparr>recv_stored := example_ack[4 := 16]\<rparr>)
      \<and> rd16 (resp_after_recv (recv_stored
            (example_syscalls\<lparr>recv_stored := example_ack[4 := 16]\<rparr>)))
          offsetof_resp_h_nlmsg_type \<noteq> NLMSG_ERROR"
    by code_simp
  have short: "recv_rv (example_syscalls\<lparr>recv_rv := 20, recv_stored := take 20 example_ack\<rparr>)
      < int (NLMSG_SPACE sizeof_nlmsgerr)"
    by (simp add: reply_space)
  from wrong_type short
    protocol_violation_codes
      [of "example_syscalls\<lparr>recv_rv := 20, recv_stored := take 20 example_ack\<rparr>"
        "bytes_of_qdisc_req (qdisc_add_req 5)" 48]
    protocol_violation_codes [of "example_syscalls\<lparr>recv_stored := example_ack[4 := 16]\<rparr>"
        "bytes_of_qdisc_req (qdisc_add_req 5)" 48]
  show ?thesis
    by (simp add: example_syscalls_def)
qed

text \<open>
  C6, the claim as stated fails: the code for a reply that is too short is the code of an
  I/O failure. With 20 bytes received the transaction returns \<^verbatim>\<open>-EMSGSIZE\<close>, and so it
  does when \<^verbatim>\<open>send\<close> transfers 40 of the 48 bytes; a reply of the wrong message type
  returns another code, \<^verbatim>\<open>-EBADMSG\<close>. Both are \<^verbatim>\<open>errno\<close> values (90 and 74).
\<close>

theorem short_reply_code_is_short_send_code:
  "sendAndProcessNetlinkResponse
      (example_syscalls\<lparr>recv_rv := 20, recv_stored := take 20 example_ack\<rparr>)
      (bytes_of_qdisc_req (qdisc_add_req 5)) 48 = - EMSGSIZE
   \<and> sendAndProcessNetlinkResponse (example_syscalls\<lparr>send_rv := (\<lambda>req len. 40)\<rparr>)
      (bytes_of_qdisc_req (qdisc_add_req 5)) 48 = - EMSGSIZE
   \<and> sendAndProcessNetlinkResponse (example_syscalls\<lparr>recv_stored := example_ack[4 := 16]\<rparr>)
      (bytes_of_qdisc_req (qdisc_add_req 5)) 48 = - EBADMSG
   \<and> EMSGSIZE = 90 \<and> EBADMSG = 74"
  by code_simp

text \<open>
  C7. In the request of \<^verbatim>\<open>tcFilterAddDevBpf\<close> the string stored in the name field (the
  characters before its first NUL) is \<^verbatim>\<open>NAME\<close> for the given \<open>ethernet\<close> and \<open>ingress\<close>;
  its bytes, terminator included, stand in the byte image right after the header of the
  name attribute. The four selections are the four documented pinned names, ethernet
  ingress for (ingress, ethernet) both true, and they are pairwise distinct.
\<close>

theorem name_selection:
  "takeWhile (\<lambda>c. c \<noteq> NUL)
      (sa_str (o_name (fa_options (tcFilterAddDevBpf_req ifIndex bpfFd ethernet ingress ipv6)))) =
     NAME ethernet ingress
   \<and> take (sizeof_lit (NAME ethernet ingress)) (drop (offsetof_fa_options_name + NLA_HDRLEN)
        (bytes_of_filter_add_req (tcFilterAddDevBpf_req ifIndex bpfFd ethernet ingress ipv6))) =
       bytes_of_chars (NAME ethernet ingress @ [NUL])
   \<and> NAME True True = NAME_RX_ETHER
   \<and> NAME False True = NAME_RX_RAWIP
   \<and> NAME True False = NAME_TX_ETHER
   \<and> NAME False False = NAME_TX_RAWIP
   \<and> NAME_RX_ETHER = ''prog_clatd_schedcls_ingress_clat_ether:[*fsobj]''
   \<and> NAME_RX_RAWIP = ''prog_clatd_schedcls_ingress_clat_rawip:[*fsobj]''
   \<and> NAME_TX_ETHER = ''prog_clatd_schedcls_egress_clat_ether:[*fsobj]''
   \<and> NAME_TX_RAWIP = ''prog_clatd_schedcls_egress_clat_rawip:[*fsobj]''
   \<and> distinct [NAME_RX_ETHER, NAME_RX_RAWIP, NAME_TX_ETHER, NAME_TX_RAWIP]"
proof -
  let ?r = "tcFilterAddDevBpf_req ifIndex bpfFd ethernet ingress ipv6"
  let ?pad = "sizeof_fa_options_name_str - length (NAME ethernet ingress)"
  have pad: "replicate ?pad NUL = NUL # replicate (?pad - 1) NUL"
    by (simp add: length_NAME sizeof_fa_options_name_str_val flip: replicate_Suc)
  have stored: "takeWhile (\<lambda>c. c \<noteq> NUL) (sa_str (o_name (fa_options ?r))) =
      NAME ethernet ingress"
    unfolding name_str_stored pad by (rule takeWhile_asciiz [OF NUL_notin_NAME])
  have off: "offsetof_fa_options_name + NLA_HDRLEN = 60"
    by (simp add: fa_size_defs sizeof_fa_kind_str_val abi_size_defs)
  have image: "take (sizeof_lit (NAME ethernet ingress))
       (drop (offsetof_fa_options_name + NLA_HDRLEN) (bytes_of_filter_add_req ?r)) =
      bytes_of_chars (NAME ethernet ingress @ [NUL])"
    unfolding off bytes_of_filter_add_req_split pad
    by (simp add: sizeof_lit_def BPF_def bytes_of_chars_def)
  have names: "NAME True True = NAME_RX_ETHER" "NAME False True = NAME_RX_RAWIP"
    "NAME True False = NAME_TX_ETHER" "NAME False False = NAME_TX_RAWIP"
    by (simp_all add: NAME_def NAME_RX_def NAME_TX_def)
  have lits: "NAME_RX_ETHER = ''prog_clatd_schedcls_ingress_clat_ether:[*fsobj]''"
    "NAME_RX_RAWIP = ''prog_clatd_schedcls_ingress_clat_rawip:[*fsobj]''"
    "NAME_TX_ETHER = ''prog_clatd_schedcls_egress_clat_ether:[*fsobj]''"
    "NAME_TX_RAWIP = ''prog_clatd_schedcls_egress_clat_rawip:[*fsobj]''"
    by (simp_all add: name_defs)
  have dist: "distinct [NAME_RX_ETHER, NAME_RX_RAWIP, NAME_TX_ETHER, NAME_TX_RAWIP]"
    unfolding lits by simp
  from stored image names lits dist show ?thesis
    by (intro conjI)
qed

text \<open>
  C8. The request built for \<^verbatim>\<open>ifIndex = 5\<close>, \<^verbatim>\<open>bpfFd = 42\<close>, raw IP, ingress, IPv4:
  \<^verbatim>\<open>tcm_parent\<close> is the ingress clsact handle, \<^verbatim>\<open>tcm_info\<close> is \<^verbatim>\<open>1 << 16\<close> or-ed with
  \<^verbatim>\<open>htons(ETH_P_IP)\<close> (in the byte image the ethertype bytes come high byte first), the
  options attribute holds the descriptor 42 under \<^verbatim>\<open>TCA_BPF_FD\<close>, the raw IP ingress
  pinned name under \<^verbatim>\<open>TCA_BPF_NAME\<close> and \<^verbatim>\<open>TCA_BPF_FLAG_ACT_DIRECT\<close> under
  \<^verbatim>\<open>TCA_BPF_FLAGS\<close>. The 116 bytes sent are listed.
\<close>

theorem attach_rawip_ingress_ipv4_request:
  "tcm_ifindex (fa_t (tcFilterAddDevBpf_req 5 42 False True False)) = 5
   \<and> tcm_parent (fa_t (tcFilterAddDevBpf_req 5 42 False True False)) =
       TC_H_MAKE TC_H_CLSACT TC_H_MIN_INGRESS
   \<and> tcm_parent (fa_t (tcFilterAddDevBpf_req 5 42 False True False)) = 0xFFFFFFF2
   \<and> tcm_info (fa_t (tcFilterAddDevBpf_req 5 42 False True False)) =
       push_bit 16 1 OR ucast (htons ETH_P_IP)
   \<and> le32 (tcm_info (fa_t (tcFilterAddDevBpf_req 5 42 False True False))) =
       [0x08, 0x00, 0x01, 0x00]
   \<and> nla_type (o_attr (fa_options (tcFilterAddDevBpf_req 5 42 False True False))) = TCA_OPTIONS
   \<and> nla_type (ua_attr (o_fd (fa_options (tcFilterAddDevBpf_req 5 42 False True False)))) =
       TCA_BPF_FD
   \<and> ua_u32 (o_fd (fa_options (tcFilterAddDevBpf_req 5 42 False True False))) = 42
   \<and> nla_type (sa_attr (o_name (fa_options (tcFilterAddDevBpf_req 5 42 False True False)))) =
       TCA_BPF_NAME
   \<and> sa_str (o_name (fa_options (tcFilterAddDevBpf_req 5 42 False True False))) =
       NAME_RX_RAWIP @ [NUL]
   \<and> NAME_RX_RAWIP = ''prog_clatd_schedcls_ingress_clat_rawip:[*fsobj]''
   \<and> nla_type (ua_attr (o_flags (fa_options (tcFilterAddDevBpf_req 5 42 False True False)))) =
       TCA_BPF_FLAGS
   \<and> ua_u32 (o_flags (fa_options (tcFilterAddDevBpf_req 5 42 False True False))) =
       TCA_BPF_FLAG_ACT_DIRECT
   \<and> bytes_of_filter_add_req (tcFilterAddDevBpf_req 5 42 False True False) =
       [116, 0, 0, 0, 44, 0, 5, 6, 0, 0, 0, 0, 0, 0, 0, 0,
        0, 0, 0, 0, 5, 0, 0, 0, 0, 0, 0, 0, 0xF2, 0xFF, 0xFF, 0xFF, 8, 0, 1, 0,
        8, 0, 1, 0] @ bytes_of_chars ''bpf'' @ [0]
       @ [72, 0, 2, 0]
       @ [8, 0, 6, 0, 42, 0, 0, 0]
       @ [52, 0, 7, 0] @ bytes_of_chars ''prog_clatd_schedcls_ingress_clat_rawip:[*fsobj]'' @ [0]
       @ [8, 0, 8, 0, 1, 0, 0, 0]"
  by code_simp

text \<open>
  C9. The request built by \<^verbatim>\<open>tcFilterDelDev\<close> for \<^verbatim>\<open>ifIndex = 5\<close>, egress, priority 1,
  protocol \<^verbatim>\<open>ETH_P_IP\<close> is the header and the TC body and nothing more (36 bytes). Its
  type is \<^verbatim>\<open>RTM_DELTFILTER\<close>, its flags are \<^verbatim>\<open>NETLINK_REQUEST_FLAGS\<close> with none of the
  create, exclusive or replace bits, \<^verbatim>\<open>tcm_parent\<close> is the egress clsact handle, and
  \<^verbatim>\<open>tcm_info\<close> has priority 1 in its upper 16 bits and \<^verbatim>\<open>htons(ETH_P_IP)\<close> in its lower
  16 bits (in the byte image the ethertype bytes come high byte first).
\<close>

theorem detach_egress_ipv4_request:
  "bytes_of_filter_del_req (tcFilterDelDev_req 5 False 1 ETH_P_IP) =
     bytes_of_nlmsghdr (fd_n (tcFilterDelDev_req 5 False 1 ETH_P_IP))
       @ bytes_of_tcmsg (fd_t (tcFilterDelDev_req 5 False 1 ETH_P_IP))
   \<and> length (bytes_of_filter_del_req (tcFilterDelDev_req 5 False 1 ETH_P_IP)) =
       sizeof_nlmsghdr + sizeof_tcmsg
   \<and> nlmsg_len (fd_n (tcFilterDelDev_req 5 False 1 ETH_P_IP)) = 36
   \<and> nlmsg_type (fd_n (tcFilterDelDev_req 5 False 1 ETH_P_IP)) = RTM_DELTFILTER
   \<and> nlmsg_flags (fd_n (tcFilterDelDev_req 5 False 1 ETH_P_IP)) = NETLINK_REQUEST_FLAGS
   \<and> nlmsg_flags (fd_n (tcFilterDelDev_req 5 False 1 ETH_P_IP))
         AND (NLM_F_CREATE OR NLM_F_EXCL OR NLM_F_REPLACE) = 0
   \<and> tcm_ifindex (fd_t (tcFilterDelDev_req 5 False 1 ETH_P_IP)) = 5
   \<and> tcm_handle (fd_t (tcFilterDelDev_req 5 False 1 ETH_P_IP)) = TC_H_UNSPEC
   \<and> tcm_parent (fd_t (tcFilterDelDev_req 5 False 1 ETH_P_IP)) =
       TC_H_MAKE TC_H_CLSACT TC_H_MIN_EGRESS
   \<and> tcm_parent (fd_t (tcFilterDelDev_req 5 False 1 ETH_P_IP)) = 0xFFFFFFF3
   \<and> drop_bit 16 (tcm_info (fd_t (tcFilterDelDev_req 5 False 1 ETH_P_IP))) = 1
   \<and> take_bit 16 (tcm_info (fd_t (tcFilterDelDev_req 5 False 1 ETH_P_IP))) =
       ucast (htons ETH_P_IP)
   \<and> le32 (tcm_info (fd_t (tcFilterDelDev_req 5 False 1 ETH_P_IP))) = [0x08, 0x00, 0x01, 0x00]
   \<and> bytes_of_filter_del_req (tcFilterDelDev_req 5 False 1 ETH_P_IP) =
       [36, 0, 0, 0, 45, 0, 5, 0, 0, 0, 0, 0, 0, 0, 0, 0,
        0, 0, 0, 0, 5, 0, 0, 0, 0, 0, 0, 0, 0xF3, 0xFF, 0xFF, 0xFF, 8, 0, 1, 0]"
  by code_simp

text \<open>
  C10. For both values of \<open>ethernet\<close> and of \<open>ingress\<close> the selected name with its
  terminating NUL is no larger than the name field, whose capacity is that of the longest
  variant rounded up by \<^verbatim>\<open>NLMSG_ALIGN\<close>. After the \<^verbatim>\<open>strncpy\<close> the field holds the whole
  name followed by NUL up to its capacity: nothing is cut off (the string in the field has
  the length of the name and is the name), and the field is NUL-terminated (the string ends
  before the end of the field, and the field's last character is NUL).
\<close>

theorem name_copy_fits:
  "sizeof_lit (NAME ethernet ingress) \<le> ASCIIZ_MAXLEN_NAME
   \<and> ASCIIZ_MAXLEN_NAME \<le> sizeof_fa_options_name_str
   \<and> length (sa_str (o_name (fa_options
         (tcFilterAddDevBpf_req ifIndex bpfFd ethernet ingress ipv6)))) = sizeof_fa_options_name_str
   \<and> sa_str (o_name (fa_options (tcFilterAddDevBpf_req ifIndex bpfFd ethernet ingress ipv6))) =
       NAME ethernet ingress
         @ replicate (sizeof_fa_options_name_str - length (NAME ethernet ingress)) NUL
   \<and> strlen (sa_str (o_name (fa_options
         (tcFilterAddDevBpf_req ifIndex bpfFd ethernet ingress ipv6)))) =
       length (NAME ethernet ingress)
   \<and> take (length (NAME ethernet ingress)) (sa_str (o_name (fa_options
         (tcFilterAddDevBpf_req ifIndex bpfFd ethernet ingress ipv6)))) = NAME ethernet ingress
   \<and> strlen (sa_str (o_name (fa_options
         (tcFilterAddDevBpf_req ifIndex bpfFd ethernet ingress ipv6)))) < sizeof_fa_options_name_str
   \<and> last (sa_str (o_name (fa_options
         (tcFilterAddDevBpf_req ifIndex bpfFd ethernet ingress ipv6)))) = NUL"
proof -
  let ?pad = "sizeof_fa_options_name_str - length (NAME ethernet ingress)"
  have pos: "0 < ?pad"
    by (simp add: length_NAME sizeof_fa_options_name_str_val)
  have len: "strlen (NAME ethernet ingress @ replicate ?pad NUL) = length (NAME ethernet ingress)"
    by (rule strlen_padded [OF NUL_notin_NAME pos])
  have lst: "last (NAME ethernet ingress @ replicate ?pad NUL) = NUL"
    using pos by (cases ?pad) simp_all
  show ?thesis
    unfolding name_str_stored len lst
    by (simp add: length_NAME sizeof_fa_options_name_str_val ASCIIZ_MAXLEN_NAME_val
        sizeof_lit_def)
qed

end
